(* ===== verification/Todo_Prelude.thy ===== *)
theory Todo_Prelude
  imports Main "HOL-Library.Word"
begin

text \<open>
  Shared vocabulary of the development. JavaScript strings are sequences of UTF-16 code
  units, so a string of the program is a list of 16-bit words (\<open>jstr\<close>); the
  function \<open>js\<close> turns an Isabelle string literal (bytes) into such a list, for
  stating concrete inputs. Timestamps from \<open>Date.now()\<close> are natural numbers of
  milliseconds. The collection \<open>todo_simps\<close> gathers the characteristic equations of
  the component operations; the generic list lemmas below are shared by the component
  proofs.
\<close>

named_theorems todo_simps "characteristic equations of the todo component operations"

type_synonym code_unit = "16 word"
type_synonym jstr = "code_unit list"
type_synonym timestamp = nat

definition js :: "string \<Rightarrow> jstr" where
  "js s = map (\<lambda>c. of_nat (of_char c)) s"

lemma js_simps [simp]:
  "js [] = []"
  "js (c # cs) = of_nat (of_char c) # js cs"
  "js (xs @ ys) = js xs @ js ys"
  by (simp_all add: js_def)

lemma length_js [simp]: "length (js s) = length s"
  by (simp add: js_def)

subsection \<open>Generic list lemmas\<close>

text \<open>Counting the elements that satisfy a predicate and those that do not.\<close>

lemma length_filter_split:
  "length (filter P xs) + length (filter (\<lambda>x. \<not> P x) xs) = length xs"
  by (rule sum_length_filter_compl)

lemma length_filter_le_strict:
  "x \<in> set xs \<Longrightarrow> \<not> P x \<Longrightarrow> length (filter P xs) < length xs"
proof (induction xs)
  case Nil
  then show ?case by simp
next
  case (Cons y ys)
  then show ?case
    using length_filter_le [of P ys] by (auto simp: le_imp_less_Suc)
qed

text \<open>A map that keeps a projection of every element keeps the projected list.\<close>

lemma map_proj_map_same:
  "(\<And>x. g (h x) = g x) \<Longrightarrow> map g (map h xs) = map g xs"
  by (induction xs) auto

text \<open>Prefixing the result of a computation that may fail.\<close>

fun prepend :: "'a list \<Rightarrow> 'a list option \<Rightarrow> 'a list option" where
  "prepend xs None = None"
| "prepend xs (Some ys) = Some (xs @ ys)"

lemma prepend_Nil [simp]: "prepend [] z = z"
  by (cases z) auto

lemma prepend_prepend [simp]: "prepend xs (prepend ys z) = prepend (xs @ ys) z"
  by (cases z) auto

text \<open>Joining lists with a separator (array elements and object members with commas).\<close>

fun join_with :: "'a \<Rightarrow> 'a list list \<Rightarrow> 'a list" where
  "join_with s [] = []"
| "join_with s [x] = x"
| "join_with s (x # y # ys) = x @ s # join_with s (y # ys)"

lemma join_with_Cons: "join_with s (x # xs) = x @ concat (map (\<lambda>y. s # y) xs)"
  by (induction xs arbitrary: x) auto

end
