(* ===== verification/Todo_Data.thy ===== *)
theory Todo_Data
  imports Todo_Prelude
begin

text \<open>
  The data of \<open>src/src/index.tsx\<close>: the \<open>Todo\<close> interface as a record, the filter
  union \<open>'all' | 'active' | 'completed'\<close> as a datatype, the storage key, and the two
  runtime string functions the component calls: \<open>String.prototype.trim\<close> (on the
  draft) and \<open>Number.prototype.toString\<close> (on \<open>Date.now()\<close>, for the identifier).
\<close>

subsection \<open>The Todo record and the filter selection\<close>

text \<open>
  \<open>interface Todo { id: string; text: string; completed: boolean; createdAt: number }\<close>.
  The fields \<open>id\<close> and \<open>text\<close> are named \<open>todo_id\<close> and \<open>todo_text\<close> here
  (\<open>id\<close> is the identity function of HOL, \<open>text\<close> a command). \<open>createdAt\<close> holds
  a value of \<open>Date.now()\<close>, a non-negative integral number of milliseconds.
\<close>

record todo =
  todo_id :: jstr
  todo_text :: jstr
  completed :: bool
  createdAt :: timestamp

datatype filter_mode = All | Active | Completed

definition STORAGE_KEY :: jstr where
  "STORAGE_KEY = js ''zos-todos''"

subsection \<open>String.prototype.trim\<close>

text \<open>
  \<open>trim\<close> removes leading and trailing white space and line terminators (ECMA-262
  WhiteSpace: TAB, VT, FF, SP, NBSP, ZWNBSP and the Zs category; LineTerminator: LF, CR,
  LS, PS), each a single UTF-16 code unit.
\<close>

definition is_js_space :: "code_unit \<Rightarrow> bool" where
  "is_js_space c \<longleftrightarrow>
     c \<in> {0x09, 0x0A, 0x0B, 0x0C, 0x0D, 0x20, 0xA0, 0x1680, 0x2028, 0x2029,
          0x202F, 0x205F, 0x3000, 0xFEFF} \<or> (0x2000 \<le> c \<and> c \<le> 0x200A)"

definition js_trim :: "jstr \<Rightarrow> jstr" where
  "js_trim s = rev (dropWhile is_js_space (rev (dropWhile is_js_space s)))"

subsection \<open>Number.prototype.toString on Date.now()\<close>

text \<open>
  \<open>Date.now().toString()\<close> is the decimal numeral of the timestamp, without leading
  zeros (exact for every integral number below \<open>10^21\<close>, which includes every
  millisecond clock value).
\<close>

definition digit_char :: "nat \<Rightarrow> code_unit" where
  "digit_char d = of_nat (48 + d)"

fun dec_str :: "nat \<Rightarrow> jstr" where
  "dec_str n = (if n < 10 then [digit_char n] else dec_str (n div 10) @ [digit_char (n mod 10)])"

declare dec_str.simps [simp del]

text \<open>Reading a decimal numeral back, the inverse used for injectivity.\<close>

definition dec_val :: "jstr \<Rightarrow> nat" where
  "dec_val s = foldl (\<lambda>acc c. 10 * acc + (unat c - 48)) 0 s"

subsection \<open>Lemmas on trim and on the decimal numerals\<close>

lemma unat_digit_char: "d < 10 \<Longrightarrow> unat (digit_char d) - 48 = d"
  by (simp only: digit_char_def unat_of_nat) simp

lemma all_dropWhile_iff: "(\<forall>x \<in> set (dropWhile P xs). P x) \<longleftrightarrow> (\<forall>x \<in> set xs. P x)"
  by (metis dropWhile_eq_Nil_conv dropWhile_idem)

lemma js_trim_Nil_iff: "js_trim s = [] \<longleftrightarrow> (\<forall>c \<in> set s. is_js_space c)"
  by (simp add: js_trim_def all_dropWhile_iff)

lemma hd_rev_dropWhile_rev:
  assumes "rev (dropWhile P (rev xs)) \<noteq> []"
  shows "hd (rev (dropWhile P (rev xs))) = hd xs"
proof -
  have "xs = rev (dropWhile P (rev xs)) @ rev (takeWhile P (rev xs))"
    by (metis rev_append rev_rev_ident takeWhile_dropWhile_id)
  then show ?thesis using assms by (metis hd_append2)
qed

lemma js_trim_js_trim: "js_trim (js_trim s) = js_trim s"
proof -
  let ?a = "dropWhile is_js_space s"
  let ?b = "rev (dropWhile is_js_space (rev ?a))"
  have "dropWhile is_js_space ?b = ?b"
  proof (cases "?b = []")
    case False
    then have "?a \<noteq> []" by (auto dest: set_dropWhileD)
    then have "\<not> is_js_space (hd ?a)" by (rule hd_dropWhile)
    with False show ?thesis
      by (simp add: dropWhile_eq_self_iff hd_rev_dropWhile_rev)
  next
    case True
    then show ?thesis by (metis dropWhile.simps(1))
  qed
  then show ?thesis by (simp add: js_trim_def)
qed

text \<open>C26. Trimming removes white space from the two ends and nothing else: the string
  is the trimmed string with white space before and after it; and trimming is
  idempotent, so the stored text of a record, already trimmed, is its own trim.\<close>

theorem js_trim_idem:
  "js_trim (js_trim s) = js_trim s \<and>
   (\<exists>p q. s = p @ js_trim s @ q \<and> (\<forall>c \<in> set p. is_js_space c) \<and> (\<forall>c \<in> set q. is_js_space c))"
proof
  show "js_trim (js_trim s) = js_trim s" by (rule js_trim_js_trim)
  let ?a = "dropWhile is_js_space s"
  have "s = takeWhile is_js_space s @ ?a" by simp
  moreover have "?a = rev (dropWhile is_js_space (rev ?a)) @ rev (takeWhile is_js_space (rev ?a))"
    by (metis rev_append rev_rev_ident takeWhile_dropWhile_id)
  ultimately have "s = takeWhile is_js_space s @ js_trim s @ rev (takeWhile is_js_space (rev ?a))"
    by (metis append_assoc js_trim_def)
  then show "\<exists>p q. s = p @ js_trim s @ q \<and> (\<forall>c \<in> set p. is_js_space c) \<and> (\<forall>c \<in> set q. is_js_space c)"
  proof (intro exI conjI)
    show "\<forall>c \<in> set (takeWhile is_js_space s). is_js_space c" by (blast dest: set_takeWhileD)
    show "\<forall>c \<in> set (rev (takeWhile is_js_space (rev ?a))). is_js_space c" by (auto dest: set_takeWhileD)
  qed
qed

theorem js_trim_idem_witness:
  "js_trim (js_trim (js ''  a b  '')) = js ''a b'' \<and> js ''  a b  '' = js ''  '' @ js_trim (js ''  a b  '') @ js ''  ''"
  using js_trim_idem [of "js ''  a b  ''"] by (simp add: js_trim_def is_js_space_def)

text \<open>C27. A non-empty trimmed string neither starts nor ends with white space or a
  line terminator.\<close>

theorem js_trim_edges:
  assumes "js_trim s \<noteq> []"
  shows "\<not> is_js_space (hd (js_trim s)) \<and> \<not> is_js_space (last (js_trim s))"
proof -
  let ?a = "dropWhile is_js_space s"
  have ne: "dropWhile is_js_space (rev ?a) \<noteq> []" using assms by (simp add: js_trim_def)
  then have "?a \<noteq> []" by (auto dest: set_dropWhileD)
  then have "\<not> is_js_space (hd ?a)" by (rule hd_dropWhile)
  moreover have "\<not> is_js_space (hd (dropWhile is_js_space (rev ?a)))"
    using ne by (rule hd_dropWhile)
  ultimately show ?thesis using assms
    by (simp add: js_trim_def hd_rev_dropWhile_rev last_rev)
qed

theorem js_trim_edges_witness:
  "js_trim [0x20, 0x61, 0x2028] = [0x61] \<and> \<not> is_js_space (hd (js_trim [0x20, 0x61, 0x2028]))"
proof -
  have "js_trim [0x20, 0x61, 0x2028] = [0x61]" by (simp add: js_trim_def is_js_space_def)
  with js_trim_edges [of "[0x20, 0x61, 0x2028]"] show ?thesis by simp
qed

lemma dec_val_snoc: "dec_val (xs @ [c]) = 10 * dec_val xs + (unat c - 48)"
  by (simp add: dec_val_def)

text \<open>Reading the numeral of \<open>n\<close> gives \<open>n\<close> back, so distinct timestamps give
  distinct identifiers.\<close>

lemma dec_val_dec_str: "dec_val (dec_str n) = n"
proof (induction n rule: dec_str.induct)
  case (1 n)
  show ?case
  proof (cases "n < 10")
    case True
    then show ?thesis by (simp add: dec_str.simps [of n] dec_val_def unat_digit_char)
  next
    case False
    with "1.IH" show ?thesis
      by (simp add: dec_str.simps [of n] dec_val_snoc unat_digit_char)
  qed
qed

lemma dec_str_inj: "dec_str m = dec_str n \<longleftrightarrow> m = n"
  by (metis dec_val_dec_str)

lemma dec_str_not_Nil: "dec_str n \<noteq> []"
  by (simp add: dec_str.simps [of n])

end
