(* ===== verification/Todo_Store.thy ===== *)
theory Todo_Store
  imports Todo_Data
begin

text \<open>
  The state store of \<open>TodoApp\<close> (\<open>src/src/index.tsx\<close>, lines 16--58): the three
  \<open>useState\<close> hooks as the fields of a record, and one definition per handler. Each
  handler is the state change its \<open>set\<close> calls make once React has applied them: the
  functional updates \<open>setTodos(prev => ...)\<close> are applied to the current list.
  The handlers are stated over the record scheme, so whatever extends the state (the
  browser storage, in \<open>Todo_App\<close>) is untouched by them.
\<close>

record todo_state =
  todos :: "todo list"
  newTodo :: jstr
  filter_sel :: filter_mode

definition initial_state :: todo_state where
  "initial_state = \<lparr>todos = [], newTodo = [], filter_sel = All\<rparr>"

subsection \<open>Handlers\<close>

text \<open>\<open>onChange={e => setNewTodo(e.target.value)}\<close> and \<open>onClick={() => setFilter(f)}\<close>.\<close>

definition setNewTodo :: "jstr \<Rightarrow> 'a todo_state_scheme \<Rightarrow> 'a todo_state_scheme" where
  "setNewTodo v s = s\<lparr>newTodo := v\<rparr>"

definition setFilter :: "filter_mode \<Rightarrow> 'a todo_state_scheme \<Rightarrow> 'a todo_state_scheme" where
  "setFilter f s = s\<lparr>filter_sel := f\<rparr>"

text \<open>
  \<open>addTodo\<close>: returns early when the trimmed draft is empty; otherwise builds the
  record with \<open>id: Date.now().toString()\<close> and \<open>createdAt: Date.now()\<close> (two
  separate clock reads, \<open>now_id\<close> and \<open>now_created\<close>), prepends it and clears the
  draft.
\<close>

definition new_todo :: "timestamp \<Rightarrow> timestamp \<Rightarrow> jstr \<Rightarrow> todo" where
  "new_todo now_id now_created v =
     \<lparr>todo_id = dec_str now_id, todo_text = js_trim v, completed = False,
      createdAt = now_created\<rparr>"

definition addTodo :: "timestamp \<Rightarrow> timestamp \<Rightarrow> 'a todo_state_scheme \<Rightarrow> 'a todo_state_scheme" where
  "addTodo now_id now_created s =
     (if js_trim (newTodo s) = [] then s
      else s\<lparr>todos := new_todo now_id now_created (newTodo s) # todos s, newTodo := []\<rparr>)"

text \<open>\<open>toggleTodo\<close>: flips \<open>completed\<close> of every record whose \<open>id\<close> is \<open>i\<close>.\<close>

definition toggleTodo :: "jstr \<Rightarrow> 'a todo_state_scheme \<Rightarrow> 'a todo_state_scheme" where
  "toggleTodo i s =
     s\<lparr>todos := map (\<lambda>t. if todo_id t = i then t\<lparr>completed := \<not> completed t\<rparr> else t) (todos s)\<rparr>"

text \<open>\<open>deleteTodo\<close>: keeps the records whose \<open>id\<close> is not \<open>i\<close>.\<close>

definition deleteTodo :: "jstr \<Rightarrow> 'a todo_state_scheme \<Rightarrow> 'a todo_state_scheme" where
  "deleteTodo i s = s\<lparr>todos := filter (\<lambda>t. todo_id t \<noteq> i) (todos s)\<rparr>"

text \<open>\<open>clearCompleted\<close>: keeps the records that are not completed.\<close>

definition clearCompleted :: "'a todo_state_scheme \<Rightarrow> 'a todo_state_scheme" where
  "clearCompleted s = s\<lparr>todos := filter (\<lambda>t. \<not> completed t) (todos s)\<rparr>"

subsection \<open>Well-formedness\<close>

text \<open>
  The identifiers of the list are pairwise distinct. The code does not enforce it:
  \<open>addTodo\<close> keeps it only when the clock has moved since the last record was made.
\<close>

definition ids :: "todo list \<Rightarrow> jstr list" where
  "ids ts = map todo_id ts"

definition ids_distinct :: "todo list \<Rightarrow> bool" where
  "ids_distinct ts \<longleftrightarrow> distinct (ids ts)"

lemmas store_defs [todo_simps] =
  setNewTodo_def setFilter_def addTodo_def toggleTodo_def deleteTodo_def clearCompleted_def

subsection \<open>Behaviour of the handlers\<close>

text \<open>A non-blank draft makes \<open>addTodo\<close> grow the list by one; shared by the gate
  property and the view's disabled button.\<close>

lemma addTodo_length:
  "js_trim (newTodo s) \<noteq> [] \<Longrightarrow> length (todos (addTodo a b s)) = Suc (length (todos s))"
  by (simp add: addTodo_def)

lemma addTodo_blank: "js_trim (newTodo s) = [] \<Longrightarrow> addTodo a b s = s"
  by (simp add: addTodo_def)

lemma toggleTodo_ids: "ids (todos (toggleTodo i s)) = ids (todos s)"
  by (simp add: toggleTodo_def ids_def)

lemma flip_completed_ne: "t\<lparr>completed := \<not> completed t\<rparr> \<noteq> t"
proof
  assume "t\<lparr>completed := \<not> completed t\<rparr> = t"
  then have "completed (t\<lparr>completed := \<not> completed t\<rparr>) = completed t" by simp
  then show False by simp
qed

lemma map_toggle_changes:
  "\<exists>t \<in> set ts. todo_id t = i \<Longrightarrow>
   map (\<lambda>t. if todo_id t = i then t\<lparr>completed := \<not> completed t\<rparr> else t) ts \<noteq> ts"
  by (induction ts) (auto simp: flip_completed_ne)

text \<open>C4. The trim gate: \<open>addTodo\<close> leaves the whole state unchanged exactly when the
  trimmed draft is empty (\<open>if (!newTodo.trim()) return\<close>).\<close>

theorem addTodo_noop_iff: "addTodo a b s = s \<longleftrightarrow> js_trim (newTodo s) = []"
proof
  assume "addTodo a b s = s"
  then have "length (todos (addTodo a b s)) = length (todos s)" by simp
  then show "js_trim (newTodo s) = []" using addTodo_length [of s a b] by auto
qed (rule addTodo_blank)

theorem addTodo_noop_iff_witness:
  "addTodo 1 1 \<lparr>todos = [], newTodo = js '' '', filter_sel = All\<rparr> = \<lparr>todos = [], newTodo = js '' '', filter_sel = All\<rparr>"
  using addTodo_noop_iff [of 1 1 "\<lparr>todos = [], newTodo = js '' '', filter_sel = All\<rparr>"]
  by (simp add: js_trim_def is_js_space_def)

text \<open>C5. On a non-blank draft \<open>addTodo\<close> puts the new record, with the trimmed text,
  \<open>completed = false\<close>, the id from the first clock reading and \<open>createdAt\<close> from
  the second, at index 0, keeps the old list behind it, clears the draft and keeps the
  filter.\<close>

theorem addTodo_nonblank:
  assumes "js_trim (newTodo s) \<noteq> []"
  shows "todos (addTodo a b s) =
           \<lparr>todo_id = dec_str a, todo_text = js_trim (newTodo s), completed = False, createdAt = b\<rparr>
           # todos s
         \<and> newTodo (addTodo a b s) = [] \<and> filter_sel (addTodo a b s) = filter_sel s"
  using assms by (simp add: addTodo_def new_todo_def)

theorem addTodo_nonblank_witness:
  "todos (addTodo 7 8 \<lparr>todos = [], newTodo = js ''  buy milk  '', filter_sel = All\<rparr>) =
     [\<lparr>todo_id = js ''7'', todo_text = js ''buy milk'', completed = False, createdAt = 8\<rparr>]"
  using addTodo_nonblank [of "\<lparr>todos = [], newTodo = js ''  buy milk  '', filter_sel = All\<rparr>" 7 8]
  by (simp add: js_trim_def is_js_space_def dec_str.simps digit_char_def)

text \<open>C33. The id and \<open>createdAt\<close> of a new record come from two separate readings of
  the clock (lines 36 and 39); when the clock ticks between them, the id is not the
  numeral of \<open>createdAt\<close>.\<close>

theorem id_createdAt_gap:
  assumes "js_trim (newTodo s) \<noteq> []" and "t1 \<noteq> t2"
  shows "todo_id (hd (todos (addTodo t1 t2 s))) \<noteq> dec_str (createdAt (hd (todos (addTodo t1 t2 s))))"
  using assms by (simp add: addTodo_def new_todo_def dec_str_inj)

theorem id_createdAt_gap_witness:
  "todo_id (hd (todos (addTodo 5 6 \<lparr>todos = [], newTodo = js ''a'', filter_sel = All\<rparr>))) = js ''5'' \<and>
   createdAt (hd (todos (addTodo 5 6 \<lparr>todos = [], newTodo = js ''a'', filter_sel = All\<rparr>))) = 6 \<and>
   todo_id (hd (todos (addTodo 5 6 \<lparr>todos = [], newTodo = js ''a'', filter_sel = All\<rparr>)))
     \<noteq> dec_str (createdAt (hd (todos (addTodo 5 6 \<lparr>todos = [], newTodo = js ''a'', filter_sel = All\<rparr>))))"
  using id_createdAt_gap [of "\<lparr>todos = [], newTodo = js ''a'', filter_sel = All\<rparr>" 5 6]
  by (simp add: addTodo_def new_todo_def js_trim_def is_js_space_def dec_str.simps digit_char_def)

text \<open>C7. Toggling keeps the length of the list, leaves every record with another id as
  it was at its position, flips only \<open>completed\<close> of the records with that id, and
  toggling the same id twice restores the state exactly.\<close>

theorem toggleTodo_spec:
  "length (todos (toggleTodo i s)) = length (todos s) \<and>
   (\<forall>k < length (todos s). todos (toggleTodo i s) ! k =
      (if todo_id (todos s ! k) = i then (todos s ! k)\<lparr>completed := \<not> completed (todos s ! k)\<rparr>
       else todos s ! k)) \<and>
   toggleTodo i (toggleTodo i s) = s"
  by (simp add: toggleTodo_def comp_def map_idI)

theorem toggleTodo_spec_witness:
  "todos (toggleTodo (js ''2'') \<lparr>todos = [\<lparr>todo_id = js ''1'', todo_text = js ''a'', completed = False, createdAt = 1\<rparr>,
       \<lparr>todo_id = js ''2'', todo_text = js ''b'', completed = False, createdAt = 2\<rparr>], newTodo = [], filter_sel = All\<rparr>) ! 0 = \<lparr>todo_id = js ''1'', todo_text = js ''a'', completed = False, createdAt = 1\<rparr> \<and>
   todos (toggleTodo (js ''2'') \<lparr>todos = [\<lparr>todo_id = js ''1'', todo_text = js ''a'', completed = False, createdAt = 1\<rparr>,
       \<lparr>todo_id = js ''2'', todo_text = js ''b'', completed = False, createdAt = 2\<rparr>], newTodo = [], filter_sel = All\<rparr>) ! 1 = \<lparr>todo_id = js ''2'', todo_text = js ''b'', completed = True, createdAt = 2\<rparr> \<and>
   toggleTodo (js ''2'') (toggleTodo (js ''2'') \<lparr>todos = [\<lparr>todo_id = js ''1'', todo_text = js ''a'', completed = False, createdAt = 1\<rparr>,
       \<lparr>todo_id = js ''2'', todo_text = js ''b'', completed = False, createdAt = 2\<rparr>], newTodo = [], filter_sel = All\<rparr>) = \<lparr>todos = [\<lparr>todo_id = js ''1'', todo_text = js ''a'', completed = False, createdAt = 1\<rparr>,
       \<lparr>todo_id = js ''2'', todo_text = js ''b'', completed = False, createdAt = 2\<rparr>], newTodo = [], filter_sel = All\<rparr>"
  using toggleTodo_spec [of "js ''2''" "\<lparr>todos = [\<lparr>todo_id = js ''1'', todo_text = js ''a'', completed = False, createdAt = 1\<rparr>,
       \<lparr>todo_id = js ''2'', todo_text = js ''b'', completed = False, createdAt = 2\<rparr>], newTodo = [], filter_sel = All\<rparr>"] by simp

text \<open>C9. Deleting by id: with distinct ids, deleting the id of a record removes exactly
  that record and keeps the others in their order; deleting an id no record carries (a
  stale reference) leaves the state unchanged.\<close>

theorem deleteTodo_spec:
  "(ids_distinct (todos s) \<and> todos s = xs @ t # ys \<and> todo_id t = i \<longrightarrow> todos (deleteTodo i s) = xs @ ys) \<and>
   (i \<notin> set (ids (todos s)) \<longrightarrow> deleteTodo i s = s)"
proof (intro conjI impI)
  assume a: "ids_distinct (todos s) \<and> todos s = xs @ t # ys \<and> todo_id t = i"
  then have "i \<notin> todo_id ` set xs" and "i \<notin> todo_id ` set ys"
    by (auto simp: ids_distinct_def ids_def)
  then have "filter (\<lambda>u. todo_id u \<noteq> i) xs = xs" and "filter (\<lambda>u. todo_id u \<noteq> i) ys = ys"
    by (auto intro!: filter_True)
  with a show "todos (deleteTodo i s) = xs @ ys" by (simp add: deleteTodo_def)
next
  assume "i \<notin> set (ids (todos s))"
  then have "filter (\<lambda>t. todo_id t \<noteq> i) (todos s) = todos s"
    by (auto simp: ids_def intro!: filter_True)
  then show "deleteTodo i s = s" by (simp add: deleteTodo_def)
qed

theorem deleteTodo_spec_witness:
  "todos (deleteTodo (js ''2'') \<lparr>todos = [\<lparr>todo_id = js ''1'', todo_text = js ''a'', completed = False, createdAt = 1\<rparr>,
       \<lparr>todo_id = js ''2'', todo_text = js ''b'', completed = True, createdAt = 2\<rparr>,
       \<lparr>todo_id = js ''3'', todo_text = js ''c'', completed = False, createdAt = 3\<rparr>], newTodo = [], filter_sel = All\<rparr>)
   = [\<lparr>todo_id = js ''1'', todo_text = js ''a'', completed = False, createdAt = 1\<rparr>,
      \<lparr>todo_id = js ''3'', todo_text = js ''c'', completed = False, createdAt = 3\<rparr>] \<and>
   deleteTodo (js ''9'') \<lparr>todos = [\<lparr>todo_id = js ''1'', todo_text = js ''a'', completed = False, createdAt = 1\<rparr>,
       \<lparr>todo_id = js ''2'', todo_text = js ''b'', completed = True, createdAt = 2\<rparr>,
       \<lparr>todo_id = js ''3'', todo_text = js ''c'', completed = False, createdAt = 3\<rparr>], newTodo = [], filter_sel = All\<rparr> = \<lparr>todos = [\<lparr>todo_id = js ''1'', todo_text = js ''a'', completed = False, createdAt = 1\<rparr>,
       \<lparr>todo_id = js ''2'', todo_text = js ''b'', completed = True, createdAt = 2\<rparr>,
       \<lparr>todo_id = js ''3'', todo_text = js ''c'', completed = False, createdAt = 3\<rparr>], newTodo = [], filter_sel = All\<rparr>"
  using deleteTodo_spec [where s = "\<lparr>todos = [\<lparr>todo_id = js ''1'', todo_text = js ''a'', completed = False, createdAt = 1\<rparr>,
       \<lparr>todo_id = js ''2'', todo_text = js ''b'', completed = True, createdAt = 2\<rparr>,
       \<lparr>todo_id = js ''3'', todo_text = js ''c'', completed = False, createdAt = 3\<rparr>], newTodo = [], filter_sel = All\<rparr>"
    and xs = "[\<lparr>todo_id = js ''1'', todo_text = js ''a'', completed = False, createdAt = 1\<rparr>]"
    and t = "\<lparr>todo_id = js ''2'', todo_text = js ''b'', completed = True, createdAt = 2\<rparr>"
    and ys = "[\<lparr>todo_id = js ''3'', todo_text = js ''c'', completed = False, createdAt = 3\<rparr>]"
    and i = "js ''2''"]
    deleteTodo_spec [where s = "\<lparr>todos = [\<lparr>todo_id = js ''1'', todo_text = js ''a'', completed = False, createdAt = 1\<rparr>,
       \<lparr>todo_id = js ''2'', todo_text = js ''b'', completed = True, createdAt = 2\<rparr>,
       \<lparr>todo_id = js ''3'', todo_text = js ''c'', completed = False, createdAt = 3\<rparr>], newTodo = [], filter_sel = All\<rparr>" and i = "js ''9''"]
  by (simp add: ids_distinct_def ids_def)

text \<open>C11. After \<open>clearCompleted\<close> no completed record is left, and the active records
  are exactly those before, in the same order; with nothing completed it leaves the
  state unchanged.\<close>

theorem clearCompleted_spec:
  "filter completed (todos (clearCompleted s)) = [] \<and>
   filter (\<lambda>t. \<not> completed t) (todos (clearCompleted s)) = filter (\<lambda>t. \<not> completed t) (todos s) \<and>
   (filter completed (todos s) = [] \<longrightarrow> clearCompleted s = s)"
  by (simp add: clearCompleted_def filter_empty_conv filter_True)

theorem clearCompleted_spec_witness:
  "todos (clearCompleted \<lparr>todos = [\<lparr>todo_id = js ''1'', todo_text = js ''a'', completed = True, createdAt = 1\<rparr>,
       \<lparr>todo_id = js ''2'', todo_text = js ''b'', completed = False, createdAt = 2\<rparr>], newTodo = [], filter_sel = All\<rparr>)
   = [\<lparr>todo_id = js ''2'', todo_text = js ''b'', completed = False, createdAt = 2\<rparr>] \<and>
   clearCompleted \<lparr>todos = [\<lparr>todo_id = js ''1'', todo_text = js ''a'', completed = False, createdAt = 1\<rparr>],
      newTodo = [], filter_sel = All\<rparr>
   = \<lparr>todos = [\<lparr>todo_id = js ''1'', todo_text = js ''a'', completed = False, createdAt = 1\<rparr>],
      newTodo = [], filter_sel = All\<rparr>"
proof
  show "todos (clearCompleted \<lparr>todos = [\<lparr>todo_id = js ''1'', todo_text = js ''a'', completed = True, createdAt = 1\<rparr>,
       \<lparr>todo_id = js ''2'', todo_text = js ''b'', completed = False, createdAt = 2\<rparr>], newTodo = [], filter_sel = All\<rparr>)
   = [\<lparr>todo_id = js ''2'', todo_text = js ''b'', completed = False, createdAt = 2\<rparr>]"
    using clearCompleted_spec [of "\<lparr>todos = [\<lparr>todo_id = js ''1'', todo_text = js ''a'', completed = True, createdAt = 1\<rparr>,
       \<lparr>todo_id = js ''2'', todo_text = js ''b'', completed = False, createdAt = 2\<rparr>], newTodo = [], filter_sel = All\<rparr>"]
    by (simp add: clearCompleted_def)
  show "clearCompleted \<lparr>todos = [\<lparr>todo_id = js ''1'', todo_text = js ''a'', completed = False, createdAt = 1\<rparr>],
      newTodo = [], filter_sel = All\<rparr>
   = \<lparr>todos = [\<lparr>todo_id = js ''1'', todo_text = js ''a'', completed = False, createdAt = 1\<rparr>],
      newTodo = [], filter_sel = All\<rparr>"
    using clearCompleted_spec [of "\<lparr>todos = [\<lparr>todo_id = js ''1'', todo_text = js ''a'', completed = False, createdAt = 1\<rparr>],
      newTodo = [], filter_sel = All\<rparr>"] by simp
qed

end
