(* ===== verification/Todo_View.thy ===== *)
theory Todo_View
  imports Todo_Store "HOL-Library.Multiset"
begin

text \<open>
  The derived view of \<open>TodoApp\<close> (\<open>src/src/index.tsx\<close>, lines 60--163): the
  filtered list and the two counts computed on every render, and the rendered markup
  reduced to what a user sees and can act on (the filter buttons and which one is
  selected, the draft input and whether \<open>Add\<close> is disabled, the empty-state message
  or the items, the footer with the remaining count and the \<open>Clear completed\<close>
  button). Styling classes and icons are not modelled.
\<close>

subsection \<open>Filtered list and counts\<close>

text \<open>The callback of \<open>todos.filter\<close> at lines 60--64, in the code's order of tests.\<close>

definition filter_pass :: "filter_mode \<Rightarrow> todo \<Rightarrow> bool" where
  "filter_pass f t = (if f = Active then \<not> completed t else if f = Completed then completed t else True)"

definition filteredTodos :: "filter_mode \<Rightarrow> todo list \<Rightarrow> todo list" where
  "filteredTodos f ts = filter (filter_pass f) ts"

definition activeCount :: "todo list \<Rightarrow> nat" where
  "activeCount ts = length (filter (\<lambda>t. \<not> completed t) ts)"

definition completedCount :: "todo list \<Rightarrow> nat" where
  "completedCount ts = length (filter completed ts)"

subsection \<open>Rendered markup\<close>

text \<open>One \<open><li>\<close>: its key and the id its two buttons pass, its text, and whether it
  is drawn as completed (check mark and line-through).\<close>

record item_view =
  item_id :: jstr
  item_text :: jstr
  item_checked :: bool

datatype list_body = Empty_state jstr | Items "item_view list"

record footer_view =
  remaining :: nat
  show_clear :: bool

record todo_view =
  filter_buttons :: "(filter_mode \<times> bool) list"
  input_value :: jstr
  add_disabled :: bool
  list_body :: list_body
  footer :: "footer_view option"

definition filter_name :: "filter_mode \<Rightarrow> jstr" where
  "filter_name f = (case f of All \<Rightarrow> js ''all'' | Active \<Rightarrow> js ''active'' | Completed \<Rightarrow> js ''completed'')"

text \<open>\<open>filter === 'all' ? 'No reminders yet' : `No ${filter} reminders`\<close>.\<close>

definition empty_message :: "filter_mode \<Rightarrow> jstr" where
  "empty_message f =
     (if f = All then js ''No reminders yet'' else js ''No '' @ filter_name f @ js '' reminders'')"

definition item_of :: "todo \<Rightarrow> item_view" where
  "item_of t = \<lparr>item_id = todo_id t, item_text = todo_text t, item_checked = completed t\<rparr>"

definition render :: "'a todo_state_scheme \<Rightarrow> todo_view" where
  "render s =
     (let ft = filteredTodos (filter_sel s) (todos s) in
      \<lparr>filter_buttons = map (\<lambda>f. (f, filter_sel s = f)) [All, Active, Completed],
       input_value = newTodo s,
       add_disabled = (js_trim (newTodo s) = []),
       list_body = (if length ft = 0 then Empty_state (empty_message (filter_sel s))
                    else Items (map item_of ft)),
       footer = (if 0 < length (todos s)
                 then Some \<lparr>remaining = activeCount (todos s),
                            show_clear = (0 < completedCount (todos s))\<rparr>
                 else None)\<rparr>)"

text \<open>The ids the rendered items carry: their React \<open>key\<close> (line 118) and the argument of their toggle and delete buttons.\<close>

definition visible_ids :: "'a todo_state_scheme \<Rightarrow> jstr list" where
  "visible_ids s = (case list_body (render s) of Items its \<Rightarrow> map item_id its | Empty_state m \<Rightarrow> [])"

lemmas view_defs [todo_simps] =
  filter_pass_def filteredTodos_def activeCount_def completedCount_def render_def

subsection \<open>Properties of the view\<close>

lemma filteredTodos_All: "filteredTodos All ts = ts"
  by (simp add: filteredTodos_def filter_pass_def)

lemma filteredTodos_filter:
  "filteredTodos Active ts = filter (\<lambda>t. \<not> completed t) ts"
  "filteredTodos Completed ts = filter completed ts"
  by (auto simp: filteredTodos_def filter_pass_def intro!: filter_cong)

text \<open>C13. The active and the completed views partition the list: as multisets they add
  up to it, so every record is in exactly one of them, as often as in the list.\<close>

theorem filter_partition_mset:
  "mset (filteredTodos Active ts) + mset (filteredTodos Completed ts) = mset ts"
  by (simp add: filteredTodos_def filter_pass_def multiset_partition [symmetric] mset_filter)

theorem filter_partition_mset_witness:
  "mset (filteredTodos Active [\<lparr>todo_id = js ''1'', todo_text = js ''a'', completed = True, createdAt = 1\<rparr>])
   = {#} \<and>
   mset (filteredTodos Completed [\<lparr>todo_id = js ''1'', todo_text = js ''a'', completed = True, createdAt = 1\<rparr>])
   = {#\<lparr>todo_id = js ''1'', todo_text = js ''a'', completed = True, createdAt = 1\<rparr>#}"
  using filter_partition_mset [of "[\<lparr>todo_id = js ''1'', todo_text = js ''a'', completed = True, createdAt = 1\<rparr>]"]
  by (simp add: filteredTodos_def filter_pass_def)

text \<open>C14. A record of the list is shown by the \<open>all\<close> view and by exactly one of the
  \<open>active\<close> and \<open>completed\<close> views.\<close>

theorem filter_exactly_one:
  assumes "t \<in> set ts"
  shows "t \<in> set (filteredTodos All ts) \<and>
         (t \<in> set (filteredTodos Active ts)) \<noteq> (t \<in> set (filteredTodos Completed ts))"
  using assms by (simp add: filteredTodos_def filter_pass_def)

theorem filter_exactly_one_witness:
  "\<lparr>todo_id = js ''1'', todo_text = js ''a'', completed = False, createdAt = 1\<rparr> \<in>
     set (filteredTodos Active [\<lparr>todo_id = js ''1'', todo_text = js ''a'', completed = False, createdAt = 1\<rparr>])"
  using filter_exactly_one [of "\<lparr>todo_id = js ''1'', todo_text = js ''a'', completed = False, createdAt = 1\<rparr>"
                                "[\<lparr>todo_id = js ''1'', todo_text = js ''a'', completed = False, createdAt = 1\<rparr>]"]
  by (simp add: filteredTodos_def filter_pass_def)

text \<open>C32. The identifier form of the partition, and unique list keys: when the ids are
  distinct, the ids of the active view and of the completed view are disjoint and
  together are the ids of the list, and the rendered items carry distinct React keys
  (\<open>key={todo.id}\<close>, line 118). Distinct ids are needed: two records added in the same
  millisecond share an id, so that id is then in both views when one of them is
  completed, and two sibling items carry the same key.\<close>

theorem filter_ids_partition:
  assumes "ids_distinct (todos s)"
  shows "set (ids (filteredTodos Active (todos s))) \<union> set (ids (filteredTodos Completed (todos s)))
           = set (ids (todos s)) \<and>
         set (ids (filteredTodos Active (todos s))) \<inter> set (ids (filteredTodos Completed (todos s))) = {} \<and>
         distinct (visible_ids s)"
proof (intro conjI)
  show "set (ids (filteredTodos Active (todos s))) \<union> set (ids (filteredTodos Completed (todos s)))
          = set (ids (todos s))"
    by (auto simp: ids_def filteredTodos_def filter_pass_def)
  have inj: "inj_on todo_id (set (todos s))"
    using assms by (simp add: ids_distinct_def ids_def distinct_map)
  show "set (ids (filteredTodos Active (todos s))) \<inter> set (ids (filteredTodos Completed (todos s))) = {}"
    using inj_onD [OF inj] by (fastforce simp: ids_def filteredTodos_def filter_pass_def)
  show "distinct (visible_ids s)"
    using assms by (simp add: visible_ids_def render_def Let_def item_of_def comp_def filteredTodos_def
      ids_distinct_def ids_def distinct_map_filter)
qed

theorem filter_ids_partition_witness:
  "set (ids (filteredTodos Active [\<lparr>todo_id = js ''2'', todo_text = js ''b'', completed = False, createdAt = 2\<rparr>,
             \<lparr>todo_id = js ''1'', todo_text = js ''a'', completed = True, createdAt = 1\<rparr>])) \<inter> set (ids (filteredTodos Completed [\<lparr>todo_id = js ''2'', todo_text = js ''b'', completed = False, createdAt = 2\<rparr>,
             \<lparr>todo_id = js ''1'', todo_text = js ''a'', completed = True, createdAt = 1\<rparr>])) = {} \<and>
   visible_ids \<lparr>todos = [\<lparr>todo_id = js ''2'', todo_text = js ''b'', completed = False, createdAt = 2\<rparr>,
             \<lparr>todo_id = js ''1'', todo_text = js ''a'', completed = True, createdAt = 1\<rparr>], newTodo = [], filter_sel = All\<rparr> = [js ''2'', js ''1'']"
  using filter_ids_partition [of "\<lparr>todos = [\<lparr>todo_id = js ''2'', todo_text = js ''b'', completed = False, createdAt = 2\<rparr>,
             \<lparr>todo_id = js ''1'', todo_text = js ''a'', completed = True, createdAt = 1\<rparr>], newTodo = [], filter_sel = All\<rparr>"]
  by (simp add: ids_distinct_def ids_def visible_ids_def render_def Let_def item_of_def filteredTodos_def
      filter_pass_def)

text \<open>C15. What \<open>Clear completed\<close> does to the screen: the footer keeps the
  remaining count and loses its \<open>Clear completed\<close> button (the footer disappears when
  nothing active is left), and the list shows the formerly active records in their
  order, or the empty-state message under the \<open>completed\<close> filter.\<close>

theorem render_clearCompleted:
  "footer (render (clearCompleted s)) =
     (if activeCount (todos s) = 0 then None
      else Some \<lparr>remaining = activeCount (todos s), show_clear = False\<rparr>) \<and>
   list_body (render (clearCompleted s)) =
     (if filter_sel s = Completed \<or> activeCount (todos s) = 0 then Empty_state (empty_message (filter_sel s))
      else Items (map item_of (filteredTodos Active (todos s))))"
  by (cases "filter_sel s")
     (simp_all add: render_def Let_def clearCompleted_def filteredTodos_filter filteredTodos_All activeCount_def
      completedCount_def filter_empty_conv)

text \<open>C16. The two counts of the footer add up to the length of the list.\<close>

theorem counts_sum: "activeCount ts + completedCount ts = length ts"
  using length_filter_split [of completed ts]
  by (simp add: activeCount_def completedCount_def)

theorem counts_sum_witness:
  "activeCount [\<lparr>todo_id = js ''1'', todo_text = js ''a'', completed = False, createdAt = 1\<rparr>] +
   completedCount [\<lparr>todo_id = js ''1'', todo_text = js ''a'', completed = False, createdAt = 1\<rparr>] = 1"
  using counts_sum [of "[\<lparr>todo_id = js ''1'', todo_text = js ''a'', completed = False, createdAt = 1\<rparr>]"]
  by simp

text \<open>C17. The Add button is disabled exactly when \<open>addTodo\<close> would do nothing: the
  button's \<open>disabled={!newTodo.trim()}\<close> and the handler's guard agree.\<close>

theorem render_add_disabled: "add_disabled (render s) \<longleftrightarrow> addTodo a b s = s"
proof
  assume "add_disabled (render s)"
  then show "addTodo a b s = s" by (simp add: render_def Let_def addTodo_blank)
next
  assume "addTodo a b s = s"
  then have "length (todos (addTodo a b s)) = length (todos s)" by simp
  then show "add_disabled (render s)" using addTodo_length [of s a b] by (auto simp: render_def Let_def)
qed

theorem render_add_disabled_witness:
  "add_disabled (render \<lparr>todos = [], newTodo = js ''x'', filter_sel = All\<rparr>) = False"
  using render_add_disabled [of "\<lparr>todos = [], newTodo = js ''x'', filter_sel = All\<rparr>" 1 1]
  by (simp add: addTodo_def js_trim_def is_js_space_def)

text \<open>C18. The footer is shown exactly when the list is not empty; it shows the number of
  active records, and the Clear completed button exactly when a record is completed.\<close>

theorem render_footer:
  "footer (render s) = (if todos s = [] then None
     else Some \<lparr>remaining = activeCount (todos s), show_clear = (\<exists>t \<in> set (todos s). completed t)\<rparr>)"
  by (simp add: render_def Let_def completedCount_def filter_empty_conv length_greater_0_conv)

theorem render_footer_witness:
  "footer (render \<lparr>todos = [\<lparr>todo_id = js ''1'', todo_text = js ''a'', completed = True, createdAt = 1\<rparr>],
                   newTodo = [], filter_sel = Active\<rparr>) = Some \<lparr>remaining = 0, show_clear = True\<rparr>"
  using render_footer [of "\<lparr>todos = [\<lparr>todo_id = js ''1'', todo_text = js ''a'', completed = True, createdAt = 1\<rparr>],
                   newTodo = [], filter_sel = Active\<rparr>"]
  by (simp add: activeCount_def)

text \<open>C19. Under the \<open>all\<close> filter the message \<open>No reminders yet\<close> is shown exactly
  when the list is empty.\<close>

theorem render_empty_all:
  assumes "filter_sel s = All"
  shows "list_body (render s) = Empty_state (js ''No reminders yet'') \<longleftrightarrow> todos s = []"
  using assms by (simp add: render_def Let_def filteredTodos_All empty_message_def)

theorem render_empty_all_witness:
  "list_body (render \<lparr>todos = [], newTodo = [], filter_sel = All\<rparr>) = Empty_state (js ''No reminders yet'')"
  using render_empty_all [of "\<lparr>todos = [], newTodo = [], filter_sel = All\<rparr>"] by simp

text \<open>C20. The empty-state message depends only on the filter, not on whether the
  list is empty: any two states with the same filter whose views are empty render the
  same list area. With the \<open>active\<close> filter, an empty list and a list of completed
  records both say \<open>No active reminders\<close>; only under \<open>all\<close> does the message
  say that there are no reminders.\<close>

theorem render_empty_same:
  "filter_sel s = filter_sel s' \<Longrightarrow> filteredTodos (filter_sel s) (todos s) = [] \<Longrightarrow>
   filteredTodos (filter_sel s') (todos s') = [] \<Longrightarrow> list_body (render s) = list_body (render s')"
  by (simp add: render_def Let_def)

theorem render_empty_same_witness:
  "list_body (render \<lparr>todos = [], newTodo = [], filter_sel = Active\<rparr>) =
   list_body (render \<lparr>todos = [\<lparr>todo_id = js ''1'', todo_text = js ''a'', completed = True, createdAt = 1\<rparr>],
                      newTodo = [], filter_sel = Active\<rparr>)"
  using render_empty_same [of "\<lparr>todos = [], newTodo = [], filter_sel = Active\<rparr>"
      "\<lparr>todos = [\<lparr>todo_id = js ''1'', todo_text = js ''a'', completed = True, createdAt = 1\<rparr>],
        newTodo = [], filter_sel = Active\<rparr>"]
  by (simp add: filteredTodos_def filter_pass_def)

end
