(* ===== verification/Todo_Json.thy ===== *)
theory Todo_Json
  imports Todo_Data
begin

text \<open>
  The JSON runtime the component calls: \<open>JSON.stringify\<close> (line 29) and
  \<open>JSON.parse\<close> (line 24). Values are the JSON data model; \<open>json_stringify\<close> is the
  ECMA-262 serialisation (QuoteJSONString with the well-formed escaping of lone
  surrogates, array elements and object members in order, no white space);
  \<open>json_parse\<close> is the ECMA-404 grammar as a lexer, an automaton over code units, and
  a pushdown parser over the tokens. Both are total structural recursions, so
  \<open>json_parse\<close> always returns: \<open>None\<close> is the \<open>SyntaxError\<close> that
  \<open>JSON.parse\<close> throws. Numbers that are non-negative integers without sign,
  fraction or exponent are \<open>JNum\<close>; any other valid number keeps its lexeme
  (\<open>JNumOther\<close>). Objects are member lists in source order.
\<close>

datatype json =
    JNull
  | JBool bool
  | JNum nat
  | JNumOther jstr
  | JStr jstr
  | JArr "json list"
  | JObj "(jstr \<times> json) list"

subsection \<open>Serialisation\<close>

definition is_lead :: "code_unit \<Rightarrow> bool" where
  "is_lead c \<longleftrightarrow> 0xD800 \<le> c \<and> c \<le> 0xDBFF"

definition is_trail :: "code_unit \<Rightarrow> bool" where
  "is_trail c \<longleftrightarrow> 0xDC00 \<le> c \<and> c \<le> 0xDFFF"

definition hex_digit :: "nat \<Rightarrow> code_unit" where
  "hex_digit d = of_nat (if d < 10 then 48 + d else 87 + d)"

definition hex4 :: "code_unit \<Rightarrow> jstr" where
  "hex4 c = map (\<lambda>k. hex_digit (unat c div 16 ^ k mod 16)) [3, 2, 1, 0]"

text \<open>One code unit that is not half of a surrogate pair (QuoteJSONString, steps 2.a--2.c).\<close>

definition esc_unit :: "code_unit \<Rightarrow> jstr" where
  "esc_unit c =
     (if c = 0x08 then [0x5C, 0x62] else if c = 0x09 then [0x5C, 0x74]
      else if c = 0x0A then [0x5C, 0x6E] else if c = 0x0C then [0x5C, 0x66]
      else if c = 0x0D then [0x5C, 0x72] else if c = 0x22 then [0x5C, 0x22]
      else if c = 0x5C then [0x5C, 0x5C]
      else if c < 0x20 \<or> is_lead c \<or> is_trail c then [0x5C, 0x75] @ hex4 c
      else [c])"

fun esc :: "jstr \<Rightarrow> jstr" where
  "esc [] = []"
| "esc [c] = esc_unit c"
| "esc (c # d # cs) = (if is_lead c \<and> is_trail d then c # d # esc cs else esc_unit c @ esc (d # cs))"

definition quote :: "jstr \<Rightarrow> jstr" where
  "quote s = 0x22 # esc s @ [0x22]"

fun json_stringify :: "json \<Rightarrow> jstr" where
  "json_stringify JNull = js ''null''"
| "json_stringify (JBool b) = (if b then js ''true'' else js ''false'')"
| "json_stringify (JNum n) = dec_str n"
| "json_stringify (JNumOther s) = s"
| "json_stringify (JStr s) = quote s"
| "json_stringify (JArr vs) = 0x5B # join_with 0x2C (map json_stringify vs) @ [0x5D]"
| "json_stringify (JObj ms) =
     0x7B # join_with 0x2C (map (\<lambda>(k, v). quote k @ 0x3A # json_stringify v) ms) @ [0x7D]"

subsection \<open>Lexer\<close>

datatype token =
    TLBrace | TRBrace | TLBrack | TRBrack | TColon | TComma
  | TStr jstr
  | TAtom json

datatype lex_state =
    LTop
  | LStr jstr
  | LEsc jstr
  | LHex jstr nat nat
  | LNum jstr
  | LWord jstr

definition is_ws :: "code_unit \<Rightarrow> bool" where
  "is_ws c \<longleftrightarrow> c = 0x20 \<or> c = 0x09 \<or> c = 0x0A \<or> c = 0x0D"

definition is_digit :: "code_unit \<Rightarrow> bool" where
  "is_digit c \<longleftrightarrow> 0x30 \<le> c \<and> c \<le> 0x39"

definition is_num_char :: "code_unit \<Rightarrow> bool" where
  "is_num_char c \<longleftrightarrow> is_digit c \<or> c = 0x2D \<or> c = 0x2B \<or> c = 0x2E \<or> c = 0x45 \<or> c = 0x65"

definition is_letter :: "code_unit \<Rightarrow> bool" where
  "is_letter c \<longleftrightarrow> 0x61 \<le> c \<and> c \<le> 0x7A"

text \<open>The exponent part \<open>[+|-] digit+\<close> after \<open>e\<close> or \<open>E\<close>.\<close>

definition exp_ok :: "jstr \<Rightarrow> bool" where
  "exp_ok r =
     (let r' = (case r of c # cs \<Rightarrow> if c = 0x2B \<or> c = 0x2D then cs else r | [] \<Rightarrow> [])
      in r' \<noteq> [] \<and> (\<forall>c \<in> set r'. is_digit c))"

text \<open>What follows the integer part: nothing (\<open>Some True\<close>, a plain integer), a valid
  fraction and/or exponent (\<open>Some False\<close>), or something invalid (\<open>None\<close>).\<close>

definition frac_exp :: "jstr \<Rightarrow> bool option" where
  "frac_exp r =
     (case r of
        [] \<Rightarrow> Some True
      | c # cs \<Rightarrow>
          if c = 0x2E then
            (let fd = takeWhile is_digit cs; rest = dropWhile is_digit cs in
             if fd = [] then None
             else (case rest of [] \<Rightarrow> Some False
                   | e # es \<Rightarrow> if (e = 0x45 \<or> e = 0x65) \<and> exp_ok es then Some False else None))
          else if (c = 0x45 \<or> c = 0x65) \<and> exp_ok cs then Some False
          else None)"

definition num_atom :: "jstr \<Rightarrow> json option" where
  "num_atom s =
     (let (neg, r0) = (case s of c # cs \<Rightarrow> if c = 0x2D then (True, cs) else (False, s) | [] \<Rightarrow> (False, s));
          ip = takeWhile is_digit r0; r1 = dropWhile is_digit r0 in
      if ip = [] \<or> (hd ip = 0x30 \<and> 1 < length ip) then None
      else (case frac_exp r1 of
              None \<Rightarrow> None
            | Some plain \<Rightarrow> if plain \<and> \<not> neg then Some (JNum (dec_val ip)) else Some (JNumOther s)))"

definition word_atom :: "jstr \<Rightarrow> json option" where
  "word_atom s =
     (if s = js ''true'' then Some (JBool True) else if s = js ''false'' then Some (JBool False)
      else if s = js ''null'' then Some JNull else None)"

definition esc_char :: "code_unit \<Rightarrow> code_unit option" where
  "esc_char c =
     (if c = 0x22 then Some 0x22 else if c = 0x5C then Some 0x5C else if c = 0x2F then Some 0x2F
      else if c = 0x62 then Some 0x08 else if c = 0x66 then Some 0x0C
      else if c = 0x6E then Some 0x0A else if c = 0x72 then Some 0x0D
      else if c = 0x74 then Some 0x09 else None)"

definition hex_val :: "code_unit \<Rightarrow> nat option" where
  "hex_val c =
     (if is_digit c then Some (unat c - 48)
      else if 0x61 \<le> c \<and> c \<le> 0x66 then Some (unat c - 87)
      else if 0x41 \<le> c \<and> c \<le> 0x46 then Some (unat c - 55) else None)"

text \<open>The action on one code unit outside a string, number or literal.\<close>

definition top_step :: "code_unit \<Rightarrow> (token list \<times> lex_state) option" where
  "top_step c =
     (if is_ws c then Some ([], LTop)
      else if c = 0x7B then Some ([TLBrace], LTop) else if c = 0x7D then Some ([TRBrace], LTop)
      else if c = 0x5B then Some ([TLBrack], LTop) else if c = 0x5D then Some ([TRBrack], LTop)
      else if c = 0x3A then Some ([TColon], LTop) else if c = 0x2C then Some ([TComma], LTop)
      else if c = 0x22 then Some ([], LStr [])
      else if c = 0x2D \<or> is_digit c then Some ([], LNum [c])
      else if is_letter c then Some ([], LWord [c])
      else None)"

fun json_lex :: "lex_state \<Rightarrow> jstr \<Rightarrow> token list option" where
  "json_lex LTop [] = Some []"
| "json_lex (LNum a) [] = map_option (\<lambda>v. [TAtom v]) (num_atom a)"
| "json_lex (LWord a) [] = map_option (\<lambda>v. [TAtom v]) (word_atom a)"
| "json_lex (LStr a) [] = None"
| "json_lex (LEsc a) [] = None"
| "json_lex (LHex a k v) [] = None"
| "json_lex LTop (c # cs) =
     (case top_step c of None \<Rightarrow> None | Some (ts, st) \<Rightarrow> prepend ts (json_lex st cs))"
| "json_lex (LNum a) (c # cs) =
     (if is_num_char c then json_lex (LNum (a @ [c])) cs
      else (case num_atom a of None \<Rightarrow> None
            | Some v \<Rightarrow> (case top_step c of None \<Rightarrow> None
                         | Some (ts, st) \<Rightarrow> prepend (TAtom v # ts) (json_lex st cs))))"
| "json_lex (LWord a) (c # cs) =
     (if is_letter c then json_lex (LWord (a @ [c])) cs
      else (case word_atom a of None \<Rightarrow> None
            | Some v \<Rightarrow> (case top_step c of None \<Rightarrow> None
                         | Some (ts, st) \<Rightarrow> prepend (TAtom v # ts) (json_lex st cs))))"
| "json_lex (LStr a) (c # cs) =
     (if c = 0x22 then prepend [TStr a] (json_lex LTop cs)
      else if c = 0x5C then json_lex (LEsc a) cs
      else if c < 0x20 then None
      else json_lex (LStr (a @ [c])) cs)"
| "json_lex (LEsc a) (c # cs) =
     (case esc_char c of
        Some d \<Rightarrow> json_lex (LStr (a @ [d])) cs
      | None \<Rightarrow> if c = 0x75 then json_lex (LHex a 4 0) cs else None)"
| "json_lex (LHex a k v) (c # cs) =
     (case hex_val c of
        None \<Rightarrow> None
      | Some h \<Rightarrow> if k \<le> 1 then json_lex (LStr (a @ [of_nat (16 * v + h)])) cs
                 else json_lex (LHex a (k - 1) (16 * v + h)) cs)"

subsection \<open>Pushdown parser\<close>

datatype frame =
    FArr "json list"
  | FObj "(jstr \<times> json) list"
  | FKey "(jstr \<times> json) list" jstr

datatype pmode = MValue | MArrFirst | MArrNext | MObjFirst | MObjKey | MColon | MObjNext | MDone json

type_synonym pstate = "pmode \<times> frame list"

text \<open>A value is complete: it becomes an element or member of the enclosing frame.\<close>

definition complete :: "json \<Rightarrow> frame list \<Rightarrow> pstate option" where
  "complete v st =
     (case st of
        [] \<Rightarrow> Some (MDone v, [])
      | FArr xs # st' \<Rightarrow> Some (MArrNext, FArr (xs @ [v]) # st')
      | FKey ms k # st' \<Rightarrow> Some (MObjNext, FObj (ms @ [(k, v)]) # st')
      | FObj ms # st' \<Rightarrow> None)"

definition start_value :: "token \<Rightarrow> frame list \<Rightarrow> pstate option" where
  "start_value t st =
     (case t of
        TLBrack \<Rightarrow> Some (MArrFirst, FArr [] # st)
      | TLBrace \<Rightarrow> Some (MObjFirst, FObj [] # st)
      | TStr s \<Rightarrow> complete (JStr s) st
      | TAtom v \<Rightarrow> complete v st
      | _ \<Rightarrow> None)"

definition pstep :: "pstate \<Rightarrow> token \<Rightarrow> pstate option" where
  "pstep p t =
     (case p of
        (MValue, st) \<Rightarrow> start_value t st
      | (MArrFirst, st) \<Rightarrow>
          (if t = TRBrack then (case st of FArr [] # st' \<Rightarrow> complete (JArr []) st' | _ \<Rightarrow> None)
           else start_value t st)
      | (MArrNext, FArr xs # st) \<Rightarrow>
          (if t = TComma then Some (MValue, FArr xs # st)
           else if t = TRBrack then complete (JArr xs) st else None)
      | (MObjFirst, FObj ms # st) \<Rightarrow>
          (case t of TRBrace \<Rightarrow> complete (JObj ms) st
           | TStr k \<Rightarrow> Some (MColon, FKey ms k # st) | _ \<Rightarrow> None)
      | (MObjKey, FObj ms # st) \<Rightarrow>
          (case t of TStr k \<Rightarrow> Some (MColon, FKey ms k # st) | _ \<Rightarrow> None)
      | (MColon, st) \<Rightarrow> (if t = TColon then Some (MValue, st) else None)
      | (MObjNext, FObj ms # st) \<Rightarrow>
          (if t = TComma then Some (MObjKey, FObj ms # st)
           else if t = TRBrace then complete (JObj ms) st else None)
      | _ \<Rightarrow> None)"

fun prun :: "pstate \<Rightarrow> token list \<Rightarrow> json option" where
  "prun p [] = (case p of (MDone v, []) \<Rightarrow> Some v | _ \<Rightarrow> None)"
| "prun p (t # ts) = (case pstep p t of None \<Rightarrow> None | Some p' \<Rightarrow> prun p' ts)"

text \<open>The tokens of a value, as the lexer produces them from its serialisation.\<close>

fun toks :: "json \<Rightarrow> token list" where
  "toks (JStr s) = [TStr s]"
| "toks (JArr vs) = TLBrack # join_with TComma (map toks vs) @ [TRBrack]"
| "toks (JObj ms) = TLBrace # join_with TComma (map (\<lambda>(k, v). TStr k # TColon # toks v) ms) @ [TRBrace]"
| "toks v = [TAtom v]"

definition json_parse :: "jstr \<Rightarrow> json option" where
  "json_parse s = (case json_lex LTop s of None \<Rightarrow> None | Some ts \<Rightarrow> prun (MValue, []) ts)"

subsection \<open>Well-formed values and the round trip\<close>

text \<open>\<open>prun_opt\<close> continues a parse from a state that may be an error.\<close>

definition prun_opt :: "pstate option \<Rightarrow> token list \<Rightarrow> json option" where
  "prun_opt p ts = (case p of None \<Rightarrow> None | Some q \<Rightarrow> prun q ts)"

text \<open>
  The values \<open>json_stringify\<close> can print and read back: a \<open>JNumOther\<close> lexeme must be
  a valid number lexeme. A value followed by a delimiter (\<open>delim\<close>: the end, or a
  code unit that cannot continue a number or a literal) lexes to its own tokens.
\<close>

definition delim :: "jstr \<Rightarrow> bool" where
  "delim r = (case r of [] \<Rightarrow> True | c # _ \<Rightarrow> \<not> is_num_char c \<and> \<not> is_letter c)"

definition num_lexeme :: "jstr \<Rightarrow> bool" where
  "num_lexeme s \<longleftrightarrow> s \<noteq> [] \<and> (hd s = 0x2D \<or> is_digit (hd s)) \<and> (\<forall>c \<in> set s. is_num_char c)"

definition word_lexeme :: "jstr \<Rightarrow> bool" where
  "word_lexeme s \<longleftrightarrow> s \<noteq> [] \<and> (\<forall>c \<in> set s. is_letter c)"

fun json_wf :: "json \<Rightarrow> bool" where
  "json_wf (JNumOther s) = (num_lexeme s \<and> num_atom s = Some (JNumOther s))"
| "json_wf (JArr vs) = (\<forall>v \<in> set vs. json_wf v)"
| "json_wf (JObj ms) = (\<forall>m \<in> set ms. json_wf (snd m))"
| "json_wf _ = True"

lemma prun_ArrFirst:
  "hd ts \<noteq> TRBrack \<Longrightarrow> ts \<noteq> [] \<Longrightarrow> prun (MArrFirst, st) ts = prun (MValue, st) ts"
  by (cases ts) (auto simp: pstep_def)

lemma toks_not_Nil: "toks v \<noteq> []"
  by (cases v rule: toks.cases) auto

lemma hd_toks: "hd (toks v) \<noteq> TRBrack \<and> hd (toks v) \<noteq> TRBrace"
  by (cases v rule: toks.cases) auto

lemma prun_elems:
  assumes "\<And>v st ts. v \<in> set vs \<Longrightarrow> prun (MValue, st) (toks v @ ts) = prun_opt (complete v st) ts"
  shows "prun (MArrNext, FArr xs # st) (concat (map (\<lambda>v. TComma # toks v) vs) @ TRBrack # ts)
         = prun_opt (complete (JArr (xs @ vs)) st) ts"
  using assms
proof (induction vs arbitrary: xs)
  case Nil
  then show ?case by (simp add: pstep_def prun_opt_def)
next
  case (Cons v vs)
  have "prun (MValue, FArr xs # st) (toks v @ concat (map (\<lambda>v. TComma # toks v) vs) @ TRBrack # ts)
        = prun_opt (complete v (FArr xs # st)) (concat (map (\<lambda>v. TComma # toks v) vs) @ TRBrack # ts)"
    using Cons.prems by simp
  also have "\<dots> = prun (MArrNext, FArr (xs @ [v]) # st) (concat (map (\<lambda>v. TComma # toks v) vs) @ TRBrack # ts)"
    by (simp add: complete_def prun_opt_def)
  also have "\<dots> = prun_opt (complete (JArr (xs @ v # vs)) st) ts"
    using Cons.IH [of "xs @ [v]"] Cons.prems by simp
  finally show ?case by (simp add: pstep_def)
qed

lemma prun_members:
  assumes "\<And>k v st ts. (k, v) \<in> set ms' \<Longrightarrow> prun (MValue, st) (toks v @ ts) = prun_opt (complete v st) ts"
  shows "prun (MObjNext, FObj ms # st)
           (concat (map (\<lambda>y. TComma # y) (map (\<lambda>(k, v). TStr k # TColon # toks v) ms')) @ TRBrace # ts)
         = prun_opt (complete (JObj (ms @ ms')) st) ts"
  using assms
proof (induction ms' arbitrary: ms)
  case Nil
  then show ?case by (simp add: pstep_def prun_opt_def)
next
  case (Cons m ms')
  obtain k v where m: "m = (k, v)" by fastforce
  let ?rest = "concat (map (\<lambda>y. TComma # y) (map (\<lambda>(k, v). TStr k # TColon # toks v) ms')) @ TRBrace # ts"
  have "prun (MValue, FKey ms k # st) (toks v @ ?rest) = prun_opt (complete v (FKey ms k # st)) ?rest"
    using Cons.prems [of k v] m by simp
  also have "\<dots> = prun (MObjNext, FObj (ms @ [(k, v)]) # st) ?rest"
    by (simp add: complete_def prun_opt_def)
  also have "\<dots> = prun_opt (complete (JObj (ms @ (k, v) # ms')) st) ts"
  proof -
    have "prun (MValue, st') (toks v' @ ts') = prun_opt (complete v' st') ts'"
      if "(k', v') \<in> set ms'" for k' v' st' ts'
      using Cons.prems [of k' v'] that by simp
    from Cons.IH [OF this, where ms = "ms @ [(k, v)]"] show ?thesis by simp
  qed
  finally show ?case using m by (simp add: pstep_def)
qed

lemma prun_toks: "prun (MValue, st) (toks v @ ts) = prun_opt (complete v st) ts"
proof (induction v arbitrary: st ts)
  case (JArr vs)
  show ?case
  proof (cases vs)
    case Nil
    then show ?thesis by (simp add: pstep_def start_value_def prun_opt_def)
  next
    case (Cons v1 vs')
    let ?rest = "concat (map (\<lambda>v. TComma # toks v) vs') @ TRBrack # ts"
    have IH: "\<And>v st ts. v \<in> set vs' \<Longrightarrow> prun (MValue, st) (toks v @ ts) = prun_opt (complete v st) ts"
      using JArr.IH Cons by simp
    have "prun (MArrFirst, FArr [] # st) (toks v1 @ ?rest) = prun (MValue, FArr [] # st) (toks v1 @ ?rest)"
      using hd_toks [of v1] toks_not_Nil [of v1] by (simp add: prun_ArrFirst)
    also have "\<dots> = prun (MArrNext, FArr [v1] # st) ?rest"
      using JArr.IH Cons by (simp add: complete_def prun_opt_def)
    also have "\<dots> = prun_opt (complete (JArr vs) st) ts"
      using prun_elems [OF IH, where xs = "[v1]"] Cons by simp
    finally show ?thesis using Cons
      by (simp add: join_with_Cons pstep_def start_value_def comp_def)
  qed
next
  case (JObj ms)
  show ?case
  proof (cases ms)
    case Nil
    then show ?thesis by (simp add: pstep_def start_value_def prun_opt_def)
  next
    case (Cons m ms')
    obtain k v where m: "m = (k, v)" by fastforce
    let ?rest = "concat (map (\<lambda>y. TComma # y) (map (\<lambda>(k, v). TStr k # TColon # toks v) ms')) @ TRBrace # ts"
    have IH: "\<And>k v st ts. (k, v) \<in> set ms' \<Longrightarrow> prun (MValue, st) (toks v @ ts) = prun_opt (complete v st) ts"
      using JObj.IH Cons by (fastforce simp: snds.simps)
    have "prun (MValue, FKey [] k # st) (toks v @ ?rest) = prun (MObjNext, FObj [(k, v)] # st) ?rest"
      using JObj.IH Cons m by (fastforce simp: complete_def prun_opt_def snds.simps)
    also have "\<dots> = prun_opt (complete (JObj ms) st) ts"
      using prun_members [OF IH, where ms = "[(k, v)]"] Cons m by simp
    finally show ?thesis using Cons m
      by (simp add: join_with_Cons pstep_def start_value_def)
  qed
qed (simp_all add: pstep_def start_value_def prun_opt_def)

lemma unat_hex_digit: "d < 16 \<Longrightarrow> unat (hex_digit d) = (if d < 10 then 48 + d else 87 + d)"
  by (simp only: hex_digit_def unat_of_nat) simp

lemma hex_val_unat:
  "hex_val c = (if 48 \<le> unat c \<and> unat c \<le> 57 then Some (unat c - 48)
     else if 97 \<le> unat c \<and> unat c \<le> 102 then Some (unat c - 87)
     else if 65 \<le> unat c \<and> unat c \<le> 70 then Some (unat c - 55) else None)"
  by (simp add: hex_val_def is_digit_def word_le_nat_alt)

lemma hex_val_hex_digit: "d < 16 \<Longrightarrow> hex_val (hex_digit d) = Some d"
  by (simp add: hex_val_unat unat_hex_digit)

lemma hex_digits_value:
  fixes n :: nat
  assumes "n < 65536"
  shows "16 * (16 * (16 * (n div 16 ^ 3 mod 16) + n div 16 ^ 2 mod 16) + n div 16 mod 16) + n mod 16 = n"
proof -
  have d1: "n div 256 = n div 16 div 16" using div_mult2_eq [of n 16 16] by simp
  have d2: "n div 4096 = n div 256 div 16" using div_mult2_eq [of n 256 16] by simp
  have a: "n div 16 = 16 * (n div 256) + n div 16 mod 16"
    unfolding d1 by simp
  have b: "n div 256 = 16 * (n div 4096) + n div 256 mod 16"
    unfolding d2 by simp
  have c: "n div 4096 mod 16 = n div 4096"
    using assms by simp
  have "n = 16 * (n div 16) + n mod 16" by simp
  with a b c show ?thesis by simp
qed

lemma of_nat_hex_digits:
  "of_nat (16 * (16 * (16 * (unat c div 16 ^ 3 mod 16) + unat c div 16 ^ 2 mod 16)
     + unat c div 16 mod 16) + unat c mod 16) = (c :: code_unit)"
proof -
  have "unat c < 65536" using unsigned_less [of c] by simp
  then show ?thesis by (simp only: hex_digits_value) simp
qed

lemma lex_hex4: "json_lex (LHex a 4 0) (hex4 c @ r) = json_lex (LStr (a @ [c])) r"
proof -
  have "json_lex (LHex a 4 0) (hex4 c @ r) =
        json_lex (LStr (a @ [of_nat (16 * (16 * (16 * (unat c div 16 ^ 3 mod 16) + unat c div 16 ^ 2 mod 16)
           + unat c div 16 mod 16) + unat c mod 16)])) r"
    by (simp add: hex4_def hex_val_hex_digit)
  then show ?thesis by (simp only: of_nat_hex_digits)
qed

lemma surrogate_plain:
  "is_lead c \<or> is_trail c \<Longrightarrow> \<not> c < 0x20 \<and> c \<noteq> 0x22 \<and> c \<noteq> 0x5C"
  by (auto simp: is_lead_def is_trail_def word_le_nat_alt word_less_nat_alt)

lemma lex_esc_unit: "json_lex (LStr a) (esc_unit c @ r) = json_lex (LStr (a @ [c])) r"
  by (simp add: esc_unit_def esc_char_def lex_hex4)

lemma lex_esc:
  "json_lex (LStr a) (esc s @ 0x22 # r) = prepend [TStr (a @ s)] (json_lex LTop r)"
proof (induction s arbitrary: a rule: esc.induct)
  case 1
  then show ?case by simp
next
  case (2 c)
  then show ?case by (simp add: lex_esc_unit)
next
  case (3 c d cs)
  show ?case
  proof (cases "is_lead c \<and> is_trail d")
    case True
    then have "\<not> c < 0x20 \<and> c \<noteq> 0x22 \<and> c \<noteq> 0x5C" and "\<not> d < 0x20 \<and> d \<noteq> 0x22 \<and> d \<noteq> 0x5C"
      by (simp_all add: surrogate_plain)
    with True "3.IH"(1) [of "a @ [c, d]"] show ?thesis by simp
  next
    case False
    then have e: "esc (c # d # cs) = esc_unit c @ esc (d # cs)" by auto
    have "json_lex (LStr a) (esc (c # d # cs) @ 0x22 # r) = json_lex (LStr (a @ [c])) (esc (d # cs) @ 0x22 # r)"
      by (simp only: e append_assoc lex_esc_unit)
    also have "\<dots> = prepend [TStr ((a @ [c]) @ d # cs)] (json_lex LTop r)"
      by (rule "3.IH"(2) [OF False])
    finally show ?thesis by simp
  qed
qed

lemma lex_LNum_append:
  "\<forall>c \<in> set ds. is_num_char c \<Longrightarrow> json_lex (LNum a) (ds @ r) = json_lex (LNum (a @ ds)) r"
  by (induction ds arbitrary: a) auto

lemma lex_LWord_append:
  "\<forall>c \<in> set ds. is_letter c \<Longrightarrow> json_lex (LWord a) (ds @ r) = json_lex (LWord (a @ ds)) r"
  by (induction ds arbitrary: a) auto

lemma lex_LNum_delim:
  "num_atom a = Some v \<Longrightarrow> delim r \<Longrightarrow> json_lex (LNum a) r = prepend [TAtom v] (json_lex LTop r)"
  by (cases r) (auto simp: delim_def split: option.splits)

lemma lex_LWord_delim:
  "word_atom a = Some v \<Longrightarrow> delim r \<Longrightarrow> json_lex (LWord a) r = prepend [TAtom v] (json_lex LTop r)"
  by (cases r) (auto simp: delim_def split: option.splits)

lemma top_step_num: "c = 0x2D \<or> is_digit c \<Longrightarrow> top_step c = Some ([], LNum [c])"
  by (auto simp: top_step_def is_ws_def is_digit_def word_le_nat_alt)

lemma top_step_letter: "is_letter c \<Longrightarrow> top_step c = Some ([], LWord [c])"
  by (auto simp: top_step_def is_ws_def is_digit_def is_letter_def word_le_nat_alt)

lemma lex_num_lexeme:
  assumes "num_lexeme s" and "num_atom s = Some v" and "delim r"
  shows "json_lex LTop (s @ r) = prepend [TAtom v] (json_lex LTop r)"
proof -
  from assms(1) obtain c cs where s: "s = c # cs" and c: "c = 0x2D \<or> is_digit c"
    and ds: "\<forall>c \<in> set cs. is_num_char c"
    by (cases s) (auto simp: num_lexeme_def)
  have "json_lex LTop (s @ r) = json_lex (LNum (c # cs)) r"
    using s c ds by (simp add: top_step_num lex_LNum_append)
  with assms(2,3) s show ?thesis by (simp add: lex_LNum_delim)
qed

lemma lex_word_lexeme:
  assumes "word_lexeme s" and "word_atom s = Some v" and "delim r"
  shows "json_lex LTop (s @ r) = prepend [TAtom v] (json_lex LTop r)"
proof -
  from assms(1) obtain c cs where s: "s = c # cs" and c: "is_letter c"
    and ds: "\<forall>c \<in> set cs. is_letter c"
    by (cases s) (auto simp: word_lexeme_def)
  have "json_lex LTop (s @ r) = json_lex (LWord (c # cs)) r"
    using s c ds by (simp add: top_step_letter lex_LWord_append)
  with assms(2,3) s show ?thesis by (simp add: lex_LWord_delim)
qed

lemma is_digit_digit_char: "d < 10 \<Longrightarrow> is_digit (digit_char d)"
  by (simp add: is_digit_def word_le_nat_alt digit_char_def unat_of_nat del: of_nat_add)

lemma dec_str_digits: "\<forall>c \<in> set (dec_str n). is_digit c"
proof (induction n rule: dec_str.induct)
  case (1 n)
  then show ?case
    by (cases "n < 10") (simp_all add: dec_str.simps [of n] is_digit_digit_char)
qed

lemma dec_str_head: "10 \<le> n \<Longrightarrow> hd (dec_str n) \<noteq> 0x30"
proof (induction n rule: dec_str.induct)
  case (1 n)
  show ?case
  proof (cases "n div 10 < 10")
    case True
    have "unat (digit_char (n div 10)) \<noteq> 48" using "1.prems" True
      by (simp add: digit_char_def unat_of_nat del: of_nat_add)
    then have "digit_char (n div 10) \<noteq> 0x30" by auto
    with "1.prems" True show ?thesis by (simp add: dec_str.simps [of n] dec_str.simps [of "n div 10"])
  next
    case False
    with "1.IH" "1.prems" show ?thesis by (simp add: dec_str.simps [of n] dec_str_not_Nil)
  qed
qed

lemma num_atom_dec_str: "num_atom (dec_str n) = Some (JNum n)"
proof -
  have d: "\<forall>c \<in> set (dec_str n). is_digit c" by (rule dec_str_digits)
  obtain c cs where s: "dec_str n = c # cs" by (cases "dec_str n") (auto simp: dec_str_not_Nil)
  have c: "is_digit c" and all: "\<forall>x \<in> set cs. is_digit x" using d s by auto
  then have "c \<noteq> 0x2D" by (auto simp: is_digit_def)
  have z: "\<not> (c = 0x30 \<and> cs \<noteq> [])"
  proof
    assume "c = 0x30 \<and> cs \<noteq> []"
    moreover then have "10 \<le> n" using s by (cases "n < 10") (auto simp: dec_str.simps [of n])
    ultimately show False using dec_str_head [of n] s by simp
  qed
  have tw: "takeWhile is_digit cs = cs" using all by (simp add: takeWhile_eq_all_conv)
  have dw: "dropWhile is_digit cs = []" using all by (simp add: dropWhile_eq_Nil_conv)
  have "num_atom (c # cs) = Some (JNum (dec_val (c # cs)))"
    by (simp add: num_atom_def frac_exp_def Let_def c \<open>c \<noteq> 0x2D\<close> z tw dw)
  then show ?thesis by (simp only: s [symmetric] dec_val_dec_str)
qed

lemma num_lexeme_dec_str: "num_lexeme (dec_str n)"
  using dec_str_digits [of n] dec_str_not_Nil [of n]
  by (cases "dec_str n") (auto simp: num_lexeme_def is_num_char_def)

lemmas top_step_eval = top_step_def is_ws_def is_digit_def is_letter_def

lemma lex_quote: "json_lex LTop (quote s @ r) = prepend [TStr s] (json_lex LTop r)"
  by (simp add: quote_def top_step_eval lex_esc)

lemma lex_elems:
  assumes "\<And>v r. v \<in> set vs \<Longrightarrow> delim r \<Longrightarrow>
             json_lex LTop (json_stringify v @ r) = prepend (toks v) (json_lex LTop r)"
  shows "json_lex LTop (concat (map ((#) 0x2C) (map json_stringify vs)) @ 0x5D # r) =
         prepend (concat (map ((#) TComma) (map toks vs)) @ [TRBrack]) (json_lex LTop r)"
  using assms
proof (induction vs)
  case Nil
  then show ?case by (simp add: top_step_eval)
next
  case (Cons v vs)
  let ?rest = "concat (map ((#) 0x2C) (map json_stringify vs)) @ 0x5D # r"
  have "delim ?rest" by (cases vs) (simp_all add: delim_def is_num_char_def is_digit_def is_letter_def)
  then have "json_lex LTop (json_stringify v @ ?rest) = prepend (toks v) (json_lex LTop ?rest)"
    using Cons.prems by simp
  with Cons.IH Cons.prems show ?case by (simp add: top_step_eval)
qed

lemma lex_members:
  assumes "\<And>m r. m \<in> set ms \<Longrightarrow> delim r \<Longrightarrow>
             json_lex LTop (json_stringify (snd m) @ r) = prepend (toks (snd m)) (json_lex LTop r)"
  shows "json_lex LTop (concat (map ((#) 0x2C) (map (\<lambda>(k, v). quote k @ 0x3A # json_stringify v) ms)) @ 0x7D # r) =
         prepend (concat (map ((#) TComma) (map (\<lambda>(k, v). TStr k # TColon # toks v) ms)) @ [TRBrace])
           (json_lex LTop r)"
  using assms
proof (induction ms)
  case Nil
  then show ?case by (simp add: top_step_eval)
next
  case (Cons m ms)
  obtain k v where m: "m = (k, v)" by fastforce
  let ?rest = "concat (map ((#) 0x2C) (map (\<lambda>(k, v). quote k @ 0x3A # json_stringify v) ms)) @ 0x7D # r"
  have "delim ?rest" by (cases ms) (simp_all add: delim_def is_num_char_def is_digit_def is_letter_def split_def quote_def)
  then have "json_lex LTop (json_stringify v @ ?rest) = prepend (toks v) (json_lex LTop ?rest)"
    using Cons.prems [of m] m by simp
  with Cons.IH Cons.prems m show ?case by (simp add: top_step_eval lex_quote)
qed

lemma lex_stringify:
  "json_wf v \<Longrightarrow> delim r \<Longrightarrow> json_lex LTop (json_stringify v @ r) = prepend (toks v) (json_lex LTop r)"
proof (induction v arbitrary: r)
  case JNull
  have "word_lexeme (js ''null'')" and "word_atom (js ''null'') = Some JNull"
    by (simp_all add: word_lexeme_def is_letter_def word_atom_def)
  from lex_word_lexeme [OF this JNull.prems(2)] show ?case by (simp only: json_stringify.simps toks.simps)
next
  case (JBool b)
  have "word_lexeme (js ''true'')" and "word_atom (js ''true'') = Some (JBool True)"
    and "word_lexeme (js ''false'')" and "word_atom (js ''false'') = Some (JBool False)"
    by (simp_all add: word_lexeme_def is_letter_def word_atom_def)
  with lex_word_lexeme JBool.prems(2) show ?case by (cases b) (simp_all only: json_stringify.simps toks.simps if_True if_False)
next
  case (JNum n)
  from lex_num_lexeme [OF num_lexeme_dec_str num_atom_dec_str JNum.prems(2)]
  show ?case by (simp only: json_stringify.simps toks.simps)
next
  case (JNumOther s)
  then have "num_lexeme s" and "num_atom s = Some (JNumOther s)" by simp_all
  from lex_num_lexeme [OF this JNumOther.prems(2)] show ?case by (simp only: json_stringify.simps toks.simps)
next
  case (JStr s)
  show ?case by (simp add: lex_quote)
next
  case (JArr vs)
  show ?case
  proof (cases vs)
    case Nil
    then show ?thesis by (simp add: top_step_eval)
  next
    case (Cons v1 vs')
    let ?rest = "concat (map ((#) 0x2C) (map json_stringify vs')) @ 0x5D # r"
    have IH: "json_lex LTop (json_stringify v @ r') = prepend (toks v) (json_lex LTop r')"
      if "v \<in> set vs'" and "delim r'" for v r'
      using JArr.IH [of v r'] JArr.prems Cons that by simp
    have d: "delim ?rest" by (cases vs') (simp_all add: delim_def is_num_char_def is_digit_def is_letter_def)
    have e1: "json_lex LTop (json_stringify v1 @ ?rest) = prepend (toks v1) (json_lex LTop ?rest)"
      using JArr.IH [of v1 ?rest] JArr.prems Cons d by simp
    have e2: "json_lex LTop ?rest = prepend (concat (map ((#) TComma) (map toks vs')) @ [TRBrack]) (json_lex LTop r)"
      using IH by (rule lex_elems)
    show ?thesis using e1 e2 Cons by (simp add: join_with_Cons top_step_eval)
  qed
next
  case (JObj ms)
  show ?case
  proof (cases ms)
    case Nil
    then show ?thesis by (simp add: top_step_eval)
  next
    case (Cons m ms')
    obtain k v where m: "m = (k, v)" by fastforce
    let ?rest = "concat (map ((#) 0x2C) (map (\<lambda>(k, v). quote k @ 0x3A # json_stringify v) ms')) @ 0x7D # r"
    have IH: "json_lex LTop (json_stringify (snd m') @ r') = prepend (toks (snd m')) (json_lex LTop r')"
      if "m' \<in> set ms'" and "delim r'" for m' r'
    proof -
      have "json_wf (snd m')" using JObj.prems Cons that by auto
      then show ?thesis using JObj.IH [of m' "snd m'" r'] Cons that by (cases m') (simp add: snds.simps)
    qed
    have d: "delim ?rest"
      by (cases ms') (simp_all add: delim_def is_num_char_def is_digit_def is_letter_def split_def quote_def)
    have d2: "delim (0x3A # json_stringify v @ ?rest)"
      by (simp add: delim_def is_num_char_def is_digit_def is_letter_def)
    have e1: "json_lex LTop (json_stringify v @ ?rest) = prepend (toks v) (json_lex LTop ?rest)"
      using JObj.IH [of m v ?rest] JObj.prems Cons m d by (simp add: snds.simps)
    have e2: "json_lex LTop ?rest =
        prepend (concat (map ((#) TComma) (map (\<lambda>(k, v). TStr k # TColon # toks v) ms')) @ [TRBrace]) (json_lex LTop r)"
      using IH by (rule lex_members)
    show ?thesis using e1 e2 Cons m by (simp add: join_with_Cons top_step_eval lex_quote)
  qed
qed

text \<open>The two halves of the round trip: the lexer gives back the tokens of the value,
  and the parser builds the value from them.\<close>

lemma lex_prun_stringify:
  assumes "json_wf v"
  shows "json_lex LTop (json_stringify v) = Some (toks v) \<and> prun (MValue, []) (toks v) = Some v"
proof
  have "json_lex LTop (json_stringify v @ []) = prepend (toks v) (json_lex LTop [])"
    using assms by (rule lex_stringify) (simp add: delim_def)
  then show "json_lex LTop (json_stringify v) = Some (toks v)" by simp
  have "prun (MValue, []) (toks v @ []) = prun_opt (complete v []) []" by (rule prun_toks)
  then show "prun (MValue, []) (toks v) = Some v" by (simp add: complete_def prun_opt_def)
qed

text \<open>C2. \<open>JSON.parse\<close> inverts \<open>JSON.stringify\<close>: every well-formed value (every
  value without an ill-formed number lexeme) is read back exactly from its
  serialisation, whatever its strings hold (quotes, backslashes, control characters,
  lone surrogates).\<close>

theorem json_parse_stringify: "json_wf v \<Longrightarrow> json_parse (json_stringify v) = Some v"
  by (simp add: json_parse_def lex_prun_stringify)

theorem json_parse_stringify_witness:
  "json_wf (JArr [JStr [0x22, 0x5C, 0x0A, 0xD800], JNum 1700000000000, JBool False, JNull]) \<and>
   json_parse (json_stringify (JArr [JStr [0x22, 0x5C, 0x0A, 0xD800], JNum 1700000000000, JBool False, JNull]))
   = Some (JArr [JStr [0x22, 0x5C, 0x0A, 0xD800], JNum 1700000000000, JBool False, JNull])"
proof -
  have wf: "json_wf (JArr [JStr [0x22, 0x5C, 0x0A, 0xD800], JNum 1700000000000, JBool False, JNull])"
    by simp
  show ?thesis using json_parse_stringify [OF wf] wf by simp
qed

end
