(* ===== verification/Todo_Json_Text.thy ===== *)
theory Todo_Json_Text
  imports Todo_Json
begin

text \<open>
  What \<open>JSON.stringify\<close> produces (\<open>json_stringify\<close> of \<open>Todo_Json\<close>, called by the save
  effect at line 29 of \<open>src/src/index.tsx\<close>) as a string: it is well-formed UTF-16 and
  has no raw control character, and its length is bounded by the length of its input.
  The escapes of QuoteJSONString are what makes both true: a lone surrogate or a control
  character becomes a six-unit \<open>\u\<close> escape.
\<close>

text \<open>A code-unit string is well-formed UTF-16 when every surrogate is half of a pair:
  a lead surrogate directly followed by a trail surrogate. A JSON text has in addition
  no control character below \<open>0x20\<close> outside an escape.\<close>

fun utf16_wf :: "jstr \<Rightarrow> bool" where
  "utf16_wf [] = True"
| "utf16_wf [c] = (\<not> is_lead c \<and> \<not> is_trail c)"
| "utf16_wf (c # d # cs) =
     (if is_lead c \<and> is_trail d then utf16_wf cs else \<not> is_lead c \<and> \<not> is_trail c \<and> utf16_wf (d # cs))"

definition plain_unit :: "code_unit \<Rightarrow> bool" where
  "plain_unit c \<longleftrightarrow> 0x20 \<le> c \<and> \<not> is_lead c \<and> \<not> is_trail c"

definition json_text_ok :: "jstr \<Rightarrow> bool" where
  "json_text_ok w \<longleftrightarrow> utf16_wf w \<and> (\<forall>c \<in> set w. 0x20 \<le> c)"


subsection \<open>The printer's output is well-formed\<close>

lemma utf16_wf_Cons_plain: "\<not> is_lead c \<Longrightarrow> \<not> is_trail c \<Longrightarrow> utf16_wf (c # xs) = utf16_wf xs"
  by (cases xs) simp_all

lemma utf16_wf_append: "utf16_wf xs \<Longrightarrow> utf16_wf ys \<Longrightarrow> utf16_wf (xs @ ys)"
proof (induction xs rule: utf16_wf.induct)
  case (2 c)
  then show ?case by (simp add: utf16_wf_Cons_plain)
next
  case (3 c d cs)
  then show ?case by (auto split: if_splits simp: utf16_wf_Cons_plain)
qed simp

lemma utf16_wf_plain: "\<forall>c \<in> set xs. plain_unit c \<Longrightarrow> utf16_wf xs"
  by (induction xs) (simp_all add: plain_unit_def utf16_wf_Cons_plain)

lemma plain_unit_ascii: "0x20 \<le> c \<Longrightarrow> c < 0x80 \<Longrightarrow> plain_unit c"
  by (auto simp: plain_unit_def is_lead_def is_trail_def word_le_nat_alt word_less_nat_alt)

lemma plain_hex4: "\<forall>x \<in> set (hex4 c). plain_unit x"
proof -
  have "plain_unit (hex_digit d)" if "d < 16" for d
    using that unat_hex_digit [OF that]
    by (intro plain_unit_ascii) (simp_all add: word_le_nat_alt word_less_nat_alt)
  then show ?thesis by (auto simp: hex4_def)
qed

lemma plain_esc_unit: "\<forall>x \<in> set (esc_unit c). plain_unit x"
  using plain_hex4 [of c]
  by (auto simp: esc_unit_def plain_unit_def is_lead_def is_trail_def not_less)

lemma esc_ok: "utf16_wf (esc s) \<and> (\<forall>x \<in> set (esc s). 0x20 \<le> x)"
proof (induction s rule: esc.induct)
  case (2 c)
  then show ?case using plain_esc_unit [of c] by (auto simp: utf16_wf_plain plain_unit_def)
next
  case (3 c d cs)
  show ?case
  proof (cases "is_lead c \<and> is_trail d")
    case True
    then have "0x20 \<le> c \<and> 0x20 \<le> d" by (auto simp: is_lead_def is_trail_def word_le_nat_alt)
    with True 3 show ?thesis by simp
  next
    case False
    with 3 plain_esc_unit [of c] show ?thesis
      by (auto simp: utf16_wf_append utf16_wf_plain plain_unit_def)
  qed
qed simp

lemma json_text_ok_Nil: "json_text_ok []"
  by (simp add: json_text_ok_def)

lemma json_text_ok_append: "json_text_ok xs \<Longrightarrow> json_text_ok ys \<Longrightarrow> json_text_ok (xs @ ys)"
  by (auto simp: json_text_ok_def utf16_wf_append)

lemma json_text_ok_plain: "\<forall>c \<in> set xs. plain_unit c \<Longrightarrow> json_text_ok xs"
  by (auto simp: json_text_ok_def utf16_wf_plain plain_unit_def)

lemma json_text_ok_Cons: "plain_unit c \<Longrightarrow> json_text_ok xs \<Longrightarrow> json_text_ok (c # xs)"
  using json_text_ok_append [of "[c]" xs] json_text_ok_plain [of "[c]"] by simp

lemma plain_num_char: "is_num_char c \<Longrightarrow> plain_unit c"
  by (auto simp: is_num_char_def is_digit_def plain_unit_def is_lead_def is_trail_def word_le_nat_alt)

lemma plain_unit_ascii_lits: "plain_unit 0x22" "plain_unit 0x2C" "plain_unit 0x3A"
  "plain_unit 0x5B" "plain_unit 0x5D" "plain_unit 0x7B" "plain_unit 0x7D"
  by (simp_all add: plain_unit_def is_lead_def is_trail_def)

lemma json_text_ok_join:
  "plain_unit s \<Longrightarrow> \<forall>x \<in> set xss. json_text_ok x \<Longrightarrow> json_text_ok (join_with s xss)"
  by (induction s xss rule: join_with.induct)
     (simp_all add: json_text_ok_append json_text_ok_Cons json_text_ok_Nil)

lemma json_text_ok_quote: "json_text_ok (quote s)"
proof -
  have "json_text_ok (esc s)" using esc_ok [of s] by (simp add: json_text_ok_def)
  then show ?thesis
    by (simp add: quote_def json_text_ok_Cons json_text_ok_append json_text_ok_Nil plain_unit_ascii_lits)
qed

lemmas json_text_ok_intros = json_text_ok_Cons json_text_ok_append json_text_ok_join json_text_ok_Nil
  json_text_ok_quote plain_unit_ascii_lits

lemma json_text_ok_stringify: "json_wf v \<Longrightarrow> json_text_ok (json_stringify v)"
proof (induction v)
  case (JNum n)
  then show ?case using dec_str_digits [of n]
    by (auto intro!: json_text_ok_plain plain_num_char simp: is_num_char_def)
next
  case (JNumOther s)
  then show ?case by (auto intro!: json_text_ok_plain plain_num_char simp: num_lexeme_def)
next
  case (JStr s)
  show ?case by (simp add: json_text_ok_quote)
next
  case (JArr vs)
  then show ?case by (auto intro!: json_text_ok_intros)
next
  case (JObj ms)
  then show ?case by (auto intro!: json_text_ok_intros simp: snds.simps)
qed (simp_all add: json_text_ok_def is_lead_def is_trail_def)

subsection \<open>Size of the output\<close>

lemma length_esc_unit: "1 \<le> length (esc_unit c) \<and> length (esc_unit c) \<le> 6"
  by (simp add: esc_unit_def hex4_def)

lemma length_esc: "length s \<le> length (esc s) \<and> length (esc s) \<le> 6 * length s"
proof (induction s rule: esc.induct)
  case (2 c)
  then show ?case using length_esc_unit [of c] by simp
next
  case (3 c d cs)
  then show ?case using length_esc_unit [of c] by auto
qed simp

text \<open>C40. The size of a printed string is bounded: quoting adds the two quotes, and each
  code unit takes at least one and at most six units (a \<open>\u\<close> escape for a control
  character or a lone surrogate). A text of \<open>n\<close> units thus costs at most
  \<open>6 n + 2\<close> units of the storage quota.\<close>

theorem quote_length_bounds: "length s + 2 \<le> length (quote s) \<and> length (quote s) \<le> 6 * length s + 2"
  using length_esc [of s] by (simp add: quote_def)

theorem quote_length_bounds_witness:
  "length (quote [0xD800, 0x41]) = 9 \<and> length (quote [0x41, 0x42]) = 4"
  using quote_length_bounds [of "[0xD800, 0x41]"] quote_length_bounds [of "[0x41, 0x42]"]
  by (simp_all add: quote_def esc_unit_def is_lead_def is_trail_def hex4_def)

end
