(* ===== verification/Todo_Storage.thy ===== *)
theory Todo_Storage
  imports Todo_Json_Text
begin

text \<open>
  The persistence bridge of \<open>TodoApp\<close> (\<open>src/src/index.tsx\<close>, lines 14 and 21--30):
  the browser's \<open>localStorage\<close> as a map from keys to strings, the layout of a todo
  list as a JSON array of objects with the members \<open>id\<close>, \<open>text\<close>,
  \<open>completed\<close> and \<open>createdAt\<close> in this order (the order of the object literal in
  \<open>addTodo\<close>, kept by the spread in \<open>toggleTodo\<close>), and the two effects: the
  save effect \<open>localStorage.setItem(STORAGE_KEY, JSON.stringify(todos))\<close> and the
  load effect, whose outcome is one of four: no saved data (\<open>getItem\<close> gives
  \<open>null\<close> or the empty string, which \<open>if (saved)\<close> skips), a \<open>SyntaxError\<close> thrown
  by \<open>JSON.parse\<close>, parsed data that is not a list of todo records (which the code
  stores in the state without any check), or a list of todo records.
\<close>

type_synonym local_storage = "jstr \<rightharpoonup> jstr"

definition todo_to_json :: "todo \<Rightarrow> json" where
  "todo_to_json t =
     JObj [(js ''id'', JStr (todo_id t)), (js ''text'', JStr (todo_text t)),
           (js ''completed'', JBool (completed t)), (js ''createdAt'', JNum (createdAt t))]"

definition todos_to_json :: "todo list \<Rightarrow> json" where
  "todos_to_json ts = JArr (map todo_to_json ts)"

text \<open>\<open>JSON.parse\<close> builds an object by adding the members in order
  (CreateDataProperty), so a member that occurs twice has its last value; the code then
  reads the fields by property access (\<open>todo.id\<close>, \<open>todo.completed\<close>, \<dots>).\<close>

definition js_prop :: "(jstr \<times> json) list \<Rightarrow> jstr \<Rightarrow> json option" where
  "js_prop ms k = map_of (rev ms) k"

text \<open>Reading a record back: an object whose members are among the four fields, with a
  string \<open>id\<close> and \<open>text\<close>, a boolean \<open>completed\<close> and an integral \<open>createdAt\<close>,
  in any order. An object with other members, or with a field of another type, is not a
  value of the record type.\<close>

fun todo_of_json :: "json \<Rightarrow> todo option" where
  "todo_of_json (JObj ms) =
     (if set (map fst ms) \<subseteq> {js ''id'', js ''text'', js ''completed'', js ''createdAt''} then
        (case (js_prop ms (js ''id''), js_prop ms (js ''text''), js_prop ms (js ''completed''),
               js_prop ms (js ''createdAt'')) of
           (Some (JStr i), Some (JStr x), Some (JBool b), Some (JNum n)) \<Rightarrow>
             Some \<lparr>todo_id = i, todo_text = x, completed = b, createdAt = n\<rparr>
         | _ \<Rightarrow> None)
      else None)"
| "todo_of_json _ = None"

fun todos_of_json :: "json \<Rightarrow> todo list option" where
  "todos_of_json (JArr vs) = those (map todo_of_json vs)"
| "todos_of_json _ = None"

datatype load_result = No_saved_data | Parse_error | Foreign_data json | Loaded "todo list"

text \<open>\<open>const saved = localStorage.getItem(STORAGE_KEY); if (saved) { ... JSON.parse(saved) ... }\<close>.\<close>

definition loadTodos :: "local_storage \<Rightarrow> load_result" where
  "loadTodos st =
     (case st STORAGE_KEY of
        None \<Rightarrow> No_saved_data
      | Some saved \<Rightarrow>
          if saved = [] then No_saved_data
          else (case json_parse saved of
                  None \<Rightarrow> Parse_error
                | Some v \<Rightarrow> (case todos_of_json v of None \<Rightarrow> Foreign_data v | Some ts \<Rightarrow> Loaded ts)))"

text \<open>\<open>localStorage.setItem(STORAGE_KEY, JSON.stringify(todos))\<close>.\<close>

definition saveTodos :: "todo list \<Rightarrow> local_storage \<Rightarrow> local_storage" where
  "saveTodos ts st = st(STORAGE_KEY \<mapsto> json_stringify (todos_to_json ts))"

text \<open>The invariant the save effect establishes: the key holds the serialised list.\<close>

definition persisted :: "todo list \<Rightarrow> local_storage \<Rightarrow> bool" where
  "persisted ts st \<longleftrightarrow> st STORAGE_KEY = Some (json_stringify (todos_to_json ts))"

lemma todos_to_json_wf: "json_wf (todos_to_json ts)"
  by (simp add: todos_to_json_def todo_to_json_def)

lemma todos_of_json_to_json: "todos_of_json (todos_to_json ts) = Some ts"
  by (induction ts) (simp_all add: todos_to_json_def todo_to_json_def js_prop_def)

lemma stringify_todos_not_Nil: "json_stringify (todos_to_json ts) \<noteq> []"
  by (simp add: todos_to_json_def)

lemma persisted_saveTodos: "persisted ts (saveTodos ts st)"
  by (simp add: persisted_def saveTodos_def)

lemma saveTodos_saveTodos: "saveTodos ts (saveTodos us st) = saveTodos ts st"
  by (simp add: saveTodos_def)

lemma saveTodos_persisted: "persisted ts st \<Longrightarrow> saveTodos ts st = st"
  by (simp add: persisted_def saveTodos_def fun_upd_idem)


lemma loadTodos_persisted: "persisted ts st \<Longrightarrow> loadTodos st = Loaded ts"
  by (simp add: persisted_def loadTodos_def stringify_todos_not_Nil json_parse_def lex_prun_stringify
      todos_to_json_wf todos_of_json_to_json)

text \<open>C28. Save then load: reading back what the save effect wrote gives the same list,
  record for record and in order, for a list of any length; and the save writes only
  the key \<open>zos-todos\<close>, every other key of the storage is left as it was.\<close>

theorem loadTodos_saveTodos:
  "loadTodos (saveTodos ts st) = Loaded ts \<and> (k \<noteq> STORAGE_KEY \<longrightarrow> saveTodos ts st k = st k)"
  by (simp add: loadTodos_persisted [OF persisted_saveTodos]) (simp add: saveTodos_def)

theorem loadTodos_saveTodos_witness:
  "loadTodos (saveTodos [\<lparr>todo_id = js ''1'', todo_text = js ''a'', completed = True, createdAt = 1\<rparr>]
      [js ''theme'' \<mapsto> js ''dark''])
   = Loaded [\<lparr>todo_id = js ''1'', todo_text = js ''a'', completed = True, createdAt = 1\<rparr>] \<and>
   saveTodos [\<lparr>todo_id = js ''1'', todo_text = js ''a'', completed = True, createdAt = 1\<rparr>]
      [js ''theme'' \<mapsto> js ''dark''] (js ''theme'') = Some (js ''dark'')"
  using loadTodos_saveTodos [of "[\<lparr>todo_id = js ''1'', todo_text = js ''a'', completed = True, createdAt = 1\<rparr>]"
      "[js ''theme'' \<mapsto> js ''dark'']" "js ''theme''"]
  by (simp add: STORAGE_KEY_def)

text \<open>C34. What the save effect writes is a well-formed JSON text in well-formed UTF-16:
  every surrogate in it is half of a pair and it has no raw control character, whatever
  the texts of the reminders hold. A lone surrogate in a text (half of an emoji, cut
  by a paste) is written as a \<open>\u\<close> escape.\<close>

theorem saveTodos_text_ok:
  "case saveTodos ts st STORAGE_KEY of Some w \<Rightarrow> json_text_ok w | None \<Rightarrow> False"
  by (simp add: saveTodos_def json_text_ok_stringify todos_to_json_wf)

theorem saveTodos_text_ok_witness:
  "\<not> utf16_wf [0xD83D, 0x41] \<and>
   (case saveTodos [\<lparr>todo_id = js ''1'', todo_text = [0xD83D, 0x41], completed = False, createdAt = 1\<rparr>]
           Map.empty STORAGE_KEY of Some w \<Rightarrow> json_text_ok w | None \<Rightarrow> False)"
  using saveTodos_text_ok [of "[\<lparr>todo_id = js ''1'', todo_text = [0xD83D, 0x41], completed = False, createdAt = 1\<rparr>]"
      Map.empty]
  by (simp add: is_lead_def is_trail_def)

end
