(* ===== verification/Todo_App.thy ===== *)
theory Todo_App
  imports Todo_View Todo_Storage
begin

text \<open>
  The component as a whole (\<open>TodoApp\<close> in \<open>src/src/index.tsx\<close>): the React state
  together with the browser storage it writes, the mount sequence of its two effects,
  and one step per user event, in which the handler runs and, when it called
  \<open>setTodos\<close>, the save effect runs after the re-render. The events are the ones the
  rendered markup can produce; \<open>offered\<close> says which of them the current view offers,
  and \<open>reachable\<close> is the set of states a user can bring the component into.
\<close>

record todo_app = todo_state +
  storage :: local_storage

definition app_init :: "local_storage \<Rightarrow> todo_app" where
  "app_init st = \<lparr>todos = [], newTodo = [], filter_sel = All, storage = st\<rparr>"

subsection \<open>Mount: the two effects\<close>

text \<open>
  How a mount ends when the stored data is not a todo list (\<open>Inl\<close>):
  \<^item> \<open>Json_syntax_error\<close>: \<open>JSON.parse\<close> throws a \<open>SyntaxError\<close> inside the load
    effect (line 24).
  \<^item> \<open>Render_type_error\<close>: the parsed value is not an array. The effect does not
    throw; \<open>setTodos\<close> queues the value, and the render that applies it throws a
    \<open>TypeError\<close> at \<open>todos.filter\<close> (line 60).
  \<^item> \<open>Untyped_records\<close>: an array whose items are not todo records. The code renders
    it, but the record type of the model cannot hold it, so the model stops there.
\<close>

datatype app_error = Json_syntax_error | Render_type_error json | Untyped_records json

text \<open>The value the load effect passes to \<open>setTodos\<close>: a todo list, or a parsed value of
  another shape.\<close>

datatype update = Set_todos "todo list" | Set_foreign json

text \<open>\<open>todos.filter\<close> exists only when \<open>todos\<close> is an array.\<close>

definition is_array :: "json \<Rightarrow> bool" where
  "is_array v = (case v of JArr vs \<Rightarrow> True | _ \<Rightarrow> False)"

definition render_error :: "json \<Rightarrow> app_error" where
  "render_error v = (if is_array v then Untyped_records v else Render_type_error v)"

text \<open>The load effect (lines 21--26): \<open>Inr None\<close> when it does not call \<open>setTodos\<close>,
  \<open>Inr (Some u)\<close> when it queues the update \<open>u\<close>; it throws only from \<open>JSON.parse\<close>.\<close>

definition effect_load :: "local_storage \<Rightarrow> app_error + update option" where
  "effect_load st =
     (case loadTodos st of
        No_saved_data \<Rightarrow> Inr None
      | Parse_error \<Rightarrow> Inl Json_syntax_error
      | Foreign_data v \<Rightarrow> Inr (Some (Set_foreign v))
      | Loaded ts \<Rightarrow> Inr (Some (Set_todos ts)))"

text \<open>The save effect (lines 28--30), run with the \<open>todos\<close> of the last render.\<close>

definition save_effect :: "'a todo_app_scheme \<Rightarrow> 'a todo_app_scheme" where
  "save_effect s = s\<lparr>storage := saveTodos (todos s) (storage s)\<rparr>"

text \<open>
  One pass of the mount effects, in declaration order, both with the closure of the
  first render (\<open>todos = []\<close>): the load effect queues its \<open>setTodos\<close>, the save
  effect writes at once. React runs one pass; in \<open>StrictMode\<close> (development) it runs
  the effects, simulates an unmount, and runs them again before the queued updates are
  rendered. The last queued update wins.
\<close>

fun mount_passes :: "nat \<Rightarrow> update option \<Rightarrow> todo_app \<Rightarrow> app_error + (update option \<times> todo_app)" where
  "mount_passes 0 pend s = Inr (pend, s)"
| "mount_passes (Suc n) pend s =
     (case effect_load (storage s) of
        Inl e \<Rightarrow> Inl e
      | Inr u \<Rightarrow> mount_passes n (case u of None \<Rightarrow> pend | Some v \<Rightarrow> Some v) (save_effect s))"

text \<open>After the passes, the last queued update is rendered: a todo list re-renders and
  the save effect runs again; a value that is not an array makes the render throw.\<close>

definition render_update :: "update \<Rightarrow> todo_app \<Rightarrow> app_error + todo_app" where
  "render_update u s =
     (case u of
        Set_todos ts \<Rightarrow> Inr (save_effect (s\<lparr>todos := ts\<rparr>))
      | Set_foreign v \<Rightarrow> Inl (render_error v))"

definition mount :: "bool \<Rightarrow> local_storage \<Rightarrow> app_error + todo_app" where
  "mount strict st =
     (case mount_passes (if strict then 2 else 1) None (app_init st) of
        Inl e \<Rightarrow> Inl e
      | Inr (None, s) \<Rightarrow> Inr s
      | Inr (Some u, s) \<Rightarrow> render_update u s)"

subsection \<open>Events\<close>

text \<open>
  The gestures the markup binds (lines 74--160): typing in the input, a key press in it
  (with the two clock readings \<open>addTodo\<close> makes if the key is Enter), the Add button,
  the three filter buttons, the per-item toggle and delete buttons, and Clear
  completed.
\<close>

datatype event =
    Change_input jstr
  | Key_down jstr timestamp timestamp
  | Click_add timestamp timestamp
  | Click_filter filter_mode
  | Click_toggle jstr
  | Click_delete jstr
  | Click_clear

text \<open>The handler bound to the event, and whether it called \<open>setTodos\<close>.\<close>

definition handler :: "event \<Rightarrow> todo_app \<Rightarrow> todo_app \<times> bool" where
  "handler ev s =
     (case ev of
        Change_input v \<Rightarrow> (setNewTodo v s, False)
      | Key_down k t1 t2 \<Rightarrow>
          if k = js ''Enter'' then (addTodo t1 t2 s, js_trim (newTodo s) \<noteq> []) else (s, False)
      | Click_add t1 t2 \<Rightarrow> (addTodo t1 t2 s, js_trim (newTodo s) \<noteq> [])
      | Click_filter f \<Rightarrow> (setFilter f s, False)
      | Click_toggle i \<Rightarrow> (toggleTodo i s, True)
      | Click_delete i \<Rightarrow> (deleteTodo i s, True)
      | Click_clear \<Rightarrow> (clearCompleted s, True))"

text \<open>A step: the handler, then the save effect when \<open>todos\<close> changed identity.\<close>

definition dispatch :: "event \<Rightarrow> todo_app \<Rightarrow> todo_app" where
  "dispatch ev s = (case handler ev s of (s', changed) \<Rightarrow> if changed then save_effect s' else s')"

fun run :: "event list \<Rightarrow> todo_app \<Rightarrow> todo_app" where
  "run [] s = s"
| "run (e # es) s = run es (dispatch e s)"

text \<open>The events the current view offers: Add only when it is enabled, toggle and delete
  only for a rendered item, Clear completed only when the footer shows it.\<close>

definition offered :: "todo_app \<Rightarrow> event \<Rightarrow> bool" where
  "offered s ev =
     (case ev of
        Click_add t1 t2 \<Rightarrow> \<not> add_disabled (render s)
      | Click_toggle i \<Rightarrow> i \<in> set (visible_ids s)
      | Click_delete i \<Rightarrow> i \<in> set (visible_ids s)
      | Click_clear \<Rightarrow> (case footer (render s) of Some f \<Rightarrow> show_clear f | None \<Rightarrow> False)
      | _ \<Rightarrow> True)"

inductive reachable :: "todo_app \<Rightarrow> bool" where
  mounted: "mount False st = Inr s \<Longrightarrow> reachable s"
| step: "reachable s \<Longrightarrow> offered s ev \<Longrightarrow> reachable (dispatch ev s)"

subsection \<open>Identifiers and the clock\<close>

text \<open>Every id of the list is the numeral of a clock value below \<open>b\<close>.\<close>

definition ids_below :: "nat \<Rightarrow> todo list \<Rightarrow> bool" where
  "ids_below b ts \<longleftrightarrow> (\<forall>i \<in> set (ids ts). \<exists>n < b. i = dec_str n)"

text \<open>The clock reading that becomes the id, for the events that may call \<open>addTodo\<close>.\<close>

definition event_clock :: "event \<Rightarrow> timestamp option" where
  "event_clock ev = (case ev of Key_down k t1 t2 \<Rightarrow> Some t1 | Click_add t1 t2 \<Rightarrow> Some t1 | _ \<Rightarrow> None)"

text \<open>The clock readings of a sequence of events are at least \<open>b\<close> and strictly increase.\<close>

fun clock_from :: "nat \<Rightarrow> event list \<Rightarrow> bool" where
  "clock_from b [] = True"
| "clock_from b (e # es) =
     (case event_clock e of None \<Rightarrow> clock_from b es | Some t \<Rightarrow> b \<le> t \<and> clock_from (Suc t) es)"

lemmas app_defs [todo_simps] = handler_def dispatch_def save_effect_def

subsection \<open>Persistence after every step\<close>

lemma handler_todos_same: "handler ev s = (s', False) \<Longrightarrow> todos s' = todos s \<and> storage s' = storage s"
  by (cases ev) (auto simp: handler_def store_defs split: if_splits)

lemma dispatch_persisted:
  assumes "persisted (todos s) (storage s)"
  shows "persisted (todos (dispatch ev s)) (storage (dispatch ev s))"
proof (cases "handler ev s")
  case (Pair s' b)
  show ?thesis
  proof (cases b)
    case True
    with Pair show ?thesis by (simp add: dispatch_def save_effect_def persisted_saveTodos)
  next
    case False
    with Pair handler_todos_same [of ev s s'] assms show ?thesis by (simp add: dispatch_def)
  qed
qed

lemma dispatch_keeps_or_saves:
  "(todos (dispatch ev s) = todos s \<and> storage (dispatch ev s) = storage s) \<or>
   persisted (todos (dispatch ev s)) (storage (dispatch ev s))"
proof (cases "handler ev s")
  case (Pair s' b)
  then show ?thesis using handler_todos_same [of ev s s']
    by (cases b) (simp_all add: dispatch_def save_effect_def persisted_saveTodos)
qed

lemma effect_load_persisted: "persisted ts st \<Longrightarrow> effect_load st = Inr (Some (Set_todos ts))"
  by (simp add: effect_load_def loadTodos_persisted)

lemma mount_ok_cases:
  "mount False st = Inr s \<Longrightarrow>
     (loadTodos st = No_saved_data \<and> s = app_init (saveTodos [] st)) \<or>
     (\<exists>ts. loadTodos st = Loaded ts \<and>
        s = \<lparr>todos = ts, newTodo = [], filter_sel = All, storage = saveTodos ts st\<rparr>)"
  by (auto simp: mount_def render_update_def effect_load_def app_init_def save_effect_def saveTodos_saveTodos
           split: load_result.splits)

lemma mount_persisted: "mount False st = Inr s \<Longrightarrow> persisted (todos s) (storage s)"
  using mount_ok_cases [of st s] by (auto simp: app_init_def persisted_saveTodos)

text \<open>The persistence invariant of every reachable state, by rule induction.\<close>

lemma reachable_persisted: "reachable s \<Longrightarrow> persisted (todos s) (storage s)"
proof (induction rule: reachable.induct)
  case (mounted st s)
  then show ?case by (rule mount_persisted)
next
  case (step s ev)
  from step.IH show ?case by (rule dispatch_persisted)
qed

lemma mount_persisted_state:
  "persisted ts st \<Longrightarrow> mount False st = Inr \<lparr>todos = ts, newTodo = [], filter_sel = All, storage = st\<rparr>"
  by (simp add: mount_def render_update_def effect_load_persisted app_init_def save_effect_def saveTodos_saveTodos
      saveTodos_persisted)

subsection \<open>Identifiers under a moving clock\<close>

lemma ids_below_mono: "ids_below b ts \<Longrightarrow> b \<le> c \<Longrightarrow> ids_below c ts"
  unfolding ids_below_def using order_less_le_trans by blast

lemma addTodo_ids:
  assumes "ids_distinct (todos s)" and "ids_below b (todos s)" and "b \<le> t1"
  shows "ids_distinct (todos (addTodo t1 t2 s)) \<and> ids_below (Suc t1) (todos (addTodo t1 t2 s))"
proof -
  have "dec_str t1 \<notin> set (ids (todos s))"
    using assms(2,3) by (auto simp: ids_below_def dec_str_inj)
  moreover have "ids_below (Suc t1) (todos s)" using assms(2,3) ids_below_mono by simp
  ultimately show ?thesis using assms(1)
    by (auto simp: addTodo_def new_todo_def ids_distinct_def ids_def ids_below_def)
qed

lemma dispatch_ids:
  assumes "ids_distinct (todos s)" and "ids_below b (todos s)"
    and "case event_clock ev of None \<Rightarrow> True | Some t \<Rightarrow> b \<le> t"
  shows "ids_distinct (todos (dispatch ev s)) \<and>
         ids_below (case event_clock ev of None \<Rightarrow> b | Some t \<Rightarrow> Suc t) (todos (dispatch ev s))"
proof (cases ev)
  case (Key_down k t1 t2)
  then show ?thesis
    using assms addTodo_ids [OF assms(1,2), of t1 t2] ids_below_mono [OF assms(2), of "Suc t1"]
    by (auto simp: dispatch_def handler_def event_clock_def save_effect_def)
next
  case (Click_add t1 t2)
  then show ?thesis using assms addTodo_ids [OF assms(1,2), of t1 t2]
    by (auto simp: dispatch_def handler_def event_clock_def save_effect_def)
next
  case (Click_toggle i)
  then show ?thesis using assms
    by (simp add: dispatch_def handler_def event_clock_def save_effect_def ids_distinct_def
        toggleTodo_ids ids_below_def)
next
  case (Click_delete i)
  then show ?thesis using assms
    by (auto simp: dispatch_def handler_def event_clock_def save_effect_def ids_distinct_def ids_def
        deleteTodo_def ids_below_def distinct_map_filter)
next
  case Click_clear
  then show ?thesis using assms
    by (auto simp: dispatch_def handler_def event_clock_def save_effect_def ids_distinct_def ids_def
        clearCompleted_def ids_below_def distinct_map_filter)
qed (use assms in \<open>simp_all add: dispatch_def handler_def event_clock_def setNewTodo_def setFilter_def\<close>)

text \<open>One step of a run whose clock readings increase keeps the ids distinct and
  numerals of earlier readings, with a new lower bound for the rest of the run.\<close>

lemma dispatch_clock_step:
  assumes "ids_distinct (todos s)" and "ids_below b (todos s)" and "clock_from b (e # es)"
  obtains b' where "ids_distinct (todos (dispatch e s))" and "ids_below b' (todos (dispatch e s))"
    and "clock_from b' es"
proof (cases "event_clock e")
  case None
  with assms dispatch_ids [of s b e] show ?thesis by (intro that [of b]) simp_all
next
  case (Some t)
  with assms dispatch_ids [of s b e] show ?thesis by (intro that [of "Suc t"]) simp_all
qed

subsection \<open>Offered events\<close>

lemma visible_ids_in_todos: "i \<in> set (visible_ids s) \<Longrightarrow> \<exists>t \<in> set (todos s). todo_id t = i"
  by (auto simp: visible_ids_def render_def Let_def item_of_def filteredTodos_def split: if_splits)

text \<open>C35. Every list control the view offers does something: the enabled Add button
  adds, the toggle of a rendered item changes the list, and its delete button and a
  shown Clear completed each remove at least one record. The no-op branches of the
  handlers (blank draft, unknown id, nothing completed) are reached only through a
  stale event, never through the current view.\<close>

theorem offered_changes_list:
  "(offered s (Click_add t1 t2) \<longrightarrow> todos (dispatch (Click_add t1 t2) s) \<noteq> todos s) \<and>
   (offered s (Click_toggle i) \<longrightarrow> todos (dispatch (Click_toggle i) s) \<noteq> todos s) \<and>
   (offered s (Click_delete i) \<longrightarrow> length (todos (dispatch (Click_delete i) s)) < length (todos s)) \<and>
   (offered s Click_clear \<longrightarrow> length (todos (dispatch Click_clear s)) < length (todos s))"
proof (intro conjI impI)
  assume "offered s (Click_add t1 t2)"
  then show "todos (dispatch (Click_add t1 t2) s) \<noteq> todos s"
    by (simp add: offered_def render_def Let_def dispatch_def handler_def addTodo_def save_effect_def)
next
  assume "offered s (Click_toggle i)"
  then have "\<exists>t \<in> set (todos s). todo_id t = i" by (simp add: offered_def visible_ids_in_todos)
  then show "todos (dispatch (Click_toggle i) s) \<noteq> todos s"
    by (simp add: dispatch_def handler_def toggleTodo_def save_effect_def map_toggle_changes)
next
  assume "offered s (Click_delete i)"
  then obtain t where "t \<in> set (todos s)" "todo_id t = i"
    by (auto simp: offered_def dest: visible_ids_in_todos)
  then show "length (todos (dispatch (Click_delete i) s)) < length (todos s)"
    by (simp add: dispatch_def handler_def deleteTodo_def save_effect_def length_filter_le_strict)
next
  assume "offered s Click_clear"
  then obtain t where "t \<in> set (todos s)" "completed t"
    by (auto simp: offered_def render_def Let_def completedCount_def filter_empty_conv
        split: if_splits)
  then show "length (todos (dispatch Click_clear s)) < length (todos s)"
    by (simp add: dispatch_def handler_def clearCompleted_def save_effect_def length_filter_le_strict)
qed

theorem offered_changes_list_witness:
  "length (todos (dispatch Click_clear
     \<lparr>todos = [\<lparr>todo_id = js ''1'', todo_text = js ''a'', completed = True, createdAt = 1\<rparr>],
      newTodo = js ''x'', filter_sel = All, storage = Map.empty\<rparr>)) < 1 \<and>
   todos (dispatch (Click_toggle (js ''1''))
     \<lparr>todos = [\<lparr>todo_id = js ''1'', todo_text = js ''a'', completed = True, createdAt = 1\<rparr>],
      newTodo = js ''x'', filter_sel = All, storage = Map.empty\<rparr>)
   \<noteq> [\<lparr>todo_id = js ''1'', todo_text = js ''a'', completed = True, createdAt = 1\<rparr>]"
proof -
  let ?s = "\<lparr>todos = [\<lparr>todo_id = js ''1'', todo_text = js ''a'', completed = True, createdAt = 1\<rparr>],
            newTodo = js ''x'', filter_sel = All, storage = Map.empty\<rparr>"
  have o: "offered ?s (Click_toggle (js ''1''))" "offered ?s Click_clear"
    by (simp_all add: offered_def visible_ids_def render_def Let_def filteredTodos_def filter_pass_def
        item_of_def completedCount_def activeCount_def)
  show ?thesis using offered_changes_list [of ?s 0 0 "js ''1''"] o by simp
qed

subsection \<open>Events that do not touch the list\<close>

text \<open>C31. Selecting a filter and typing in the input change only the filter and the
  draft: the list and the storage are untouched, so neither writes to
  \<open>localStorage\<close>.\<close>

theorem dispatch_view_only:
  "dispatch (Click_filter f) s = s\<lparr>filter_sel := f\<rparr> \<and> dispatch (Change_input v) s = s\<lparr>newTodo := v\<rparr>"
  by (simp add: dispatch_def handler_def setFilter_def setNewTodo_def)

theorem dispatch_view_only_witness:
  "storage (dispatch (Click_filter Completed) (app_init Map.empty)) = Map.empty \<and>
   todos (dispatch (Change_input (js ''x'')) (app_init Map.empty)) = []"
  using dispatch_view_only [of Completed "app_init Map.empty" "js ''x''"] by (simp add: app_init_def)

end
