(* ===== verification/Todo_Tabs.thy ===== *)
theory Todo_Tabs
  imports Todo_App
begin

text \<open>
  Several instances of the component over one storage: two browser tabs of the same
  profile, each running \<open>TodoApp\<close>, share one \<open>localStorage\<close>. Each instance reads the
  storage once, when it mounts (the load effect, lines 21--26), and writes its own whole
  list on every change (the save effect, lines 28--30). Nothing listens for the
  \<open>storage\<close> event, so an instance never sees what the other wrote until it is
  reloaded. \<open>tab_step\<close> runs one event in one tab: the component state of that tab
  with the shared storage, through \<open>dispatch\<close> of \<open>Todo_App\<close>. \<open>tabs_reachable\<close> adds
  reloading a tab, which mounts it again from the current storage.
\<close>

datatype tab = Tab_A | Tab_B

record tabs =
  tab_a :: todo_state
  tab_b :: todo_state
  shared :: local_storage

definition attach :: "todo_state \<Rightarrow> local_storage \<Rightarrow> todo_app" where
  "attach t st = \<lparr>todos = todos t, newTodo = newTodo t, filter_sel = filter_sel t, storage = st\<rparr>"

definition detach :: "todo_app \<Rightarrow> todo_state" where
  "detach s = \<lparr>todos = todos s, newTodo = newTodo s, filter_sel = filter_sel s\<rparr>"

definition tab_of :: "tab \<Rightarrow> tabs \<Rightarrow> todo_state" where
  "tab_of k w = (case k of Tab_A \<Rightarrow> tab_a w | Tab_B \<Rightarrow> tab_b w)"

definition put_tab :: "tab \<Rightarrow> todo_app \<Rightarrow> tabs \<Rightarrow> tabs" where
  "put_tab k s w =
     (case k of Tab_A \<Rightarrow> w\<lparr>tab_a := detach s, shared := storage s\<rparr>
              | Tab_B \<Rightarrow> w\<lparr>tab_b := detach s, shared := storage s\<rparr>)"

definition tab_step :: "tab \<Rightarrow> event \<Rightarrow> tabs \<Rightarrow> tabs" where
  "tab_step k ev w = put_tab k (dispatch ev (attach (tab_of k w) (shared w))) w"

fun tabs_run :: "(tab \<times> event) list \<Rightarrow> tabs \<Rightarrow> tabs" where
  "tabs_run [] w = w"
| "tabs_run ((k, ev) # es) w = tabs_run es (tab_step k ev w)"

definition open_tabs :: "local_storage \<Rightarrow> app_error + tabs" where
  "open_tabs st =
     (case mount False st of
        Inl e \<Rightarrow> Inl e
      | Inr a \<Rightarrow> (case mount False (storage a) of
                   Inl e \<Rightarrow> Inl e
                 | Inr b \<Rightarrow> Inr \<lparr>tab_a = detach a, tab_b = detach b, shared = storage b\<rparr>))"

inductive tabs_reachable :: "tabs \<Rightarrow> bool" where
  opened: "open_tabs st = Inr w \<Longrightarrow> tabs_reachable w"
| step: "tabs_reachable w \<Longrightarrow> tabs_reachable (tab_step k ev w)"
| reload: "tabs_reachable w \<Longrightarrow> mount False (shared w) = Inr s \<Longrightarrow> tabs_reachable (put_tab k s w)"

text \<open>The storage holds the serialised list of one of the two tabs.\<close>

definition one_tab_saved :: "tabs \<Rightarrow> bool" where
  "one_tab_saved w \<longleftrightarrow> persisted (todos (tab_a w)) (shared w) \<or> persisted (todos (tab_b w)) (shared w)"

lemma todos_detach [simp]: "todos (detach s) = todos s"
  by (simp add: detach_def)

lemma attach_simps [simp]: "todos (attach t st) = todos t" "storage (attach t st) = st"
  by (simp_all add: attach_def)

lemma put_tab_saved: "persisted (todos s) (storage s) \<Longrightarrow> one_tab_saved (put_tab k s w)"
  by (cases k) (simp_all add: put_tab_def one_tab_saved_def)

lemma tab_step_saved: "one_tab_saved w \<Longrightarrow> one_tab_saved (tab_step k ev w)"
  using dispatch_keeps_or_saves [of ev "attach (tab_of k w) (shared w)"]
  by (cases k) (auto simp: tab_step_def put_tab_def one_tab_saved_def tab_of_def)

lemma tabs_reachable_saved: "tabs_reachable w \<Longrightarrow> one_tab_saved w"
proof (induction rule: tabs_reachable.induct)
  case (opened st w)
  then show ?case
    by (auto simp: open_tabs_def one_tab_saved_def dest: mount_persisted split: sum.splits)
next
  case (step w k ev)
  from step.IH show ?case by (rule tab_step_saved)
next
  case (reload w s k)
  then show ?case by (simp add: put_tab_saved mount_persisted)
qed

text \<open>C36. Last write wins: with two tabs open, in every reachable situation the stored
  list is exactly the current list of one of the tabs, the one that wrote last. It is
  never a merge of the two and never a state neither tab shows.\<close>

theorem tabs_storage_one_tab:
  "tabs_reachable w \<Longrightarrow>
   loadTodos (shared w) = Loaded (todos (tab_a w)) \<or> loadTodos (shared w) = Loaded (todos (tab_b w))"
  using tabs_reachable_saved [of w] by (auto simp: one_tab_saved_def loadTodos_persisted)

lemma tabs_reachable_run: "tabs_reachable w \<Longrightarrow> tabs_reachable (tabs_run es w)"
  by (induction es w rule: tabs_run.induct) (auto intro: tabs_reachable.step)

lemma mount_saveTodos:
  "mount False (saveTodos ts st) = Inr \<lparr>todos = ts, newTodo = [], filter_sel = All, storage = saveTodos ts st\<rparr>"
  by (rule mount_persisted_state [OF persisted_saveTodos])

lemma open_tabs_empty:
  "open_tabs Map.empty =
     Inr \<lparr>tab_a = \<lparr>todos = [], newTodo = [], filter_sel = All\<rparr>,
          tab_b = \<lparr>todos = [], newTodo = [], filter_sel = All\<rparr>, shared = saveTodos [] Map.empty\<rparr>"
proof -
  have "mount False Map.empty = Inr (app_init (saveTodos [] Map.empty))"
    by (simp add: mount_def render_update_def effect_load_def loadTodos_def app_init_def save_effect_def)
  then show ?thesis by (simp add: open_tabs_def app_init_def mount_saveTodos detach_def)
qed

theorem tabs_storage_one_tab_witness:
  "loadTodos (shared (tabs_run [(Tab_A, Change_input (js ''milk'')), (Tab_A, Click_add 1 1),
                                (Tab_B, Change_input (js ''eggs'')), (Tab_B, Click_add 2 2)]
     \<lparr>tab_a = \<lparr>todos = [], newTodo = [], filter_sel = All\<rparr>,
      tab_b = \<lparr>todos = [], newTodo = [], filter_sel = All\<rparr>, shared = saveTodos [] Map.empty\<rparr>))
   \<in> {Loaded [\<lparr>todo_id = js ''1'', todo_text = js ''milk'', completed = False, createdAt = 1\<rparr>],
       Loaded [\<lparr>todo_id = js ''2'', todo_text = js ''eggs'', completed = False, createdAt = 2\<rparr>]}"
proof -
  let ?w = "tabs_run [(Tab_A, Change_input (js ''milk'')), (Tab_A, Click_add 1 1),
                      (Tab_B, Change_input (js ''eggs'')), (Tab_B, Click_add 2 2)]
     \<lparr>tab_a = \<lparr>todos = [], newTodo = [], filter_sel = All\<rparr>,
      tab_b = \<lparr>todos = [], newTodo = [], filter_sel = All\<rparr>, shared = saveTodos [] Map.empty\<rparr>"
  have r: "tabs_reachable ?w"
    by (rule tabs_reachable_run, rule tabs_reachable.opened [OF open_tabs_empty])
  show ?thesis using tabs_storage_one_tab [OF r]
    by (simp add: tab_step_def put_tab_def tab_of_def attach_def detach_def dispatch_def handler_def
        store_defs new_todo_def js_trim_def is_js_space_def save_effect_def dec_str.simps digit_char_def)
qed

text \<open>C37. The lost update of two tabs: when tab A adds a reminder and then tab B
  adds one at a different millisecond, tab A shows its new reminder, the storage holds
  exactly B's list, and that list lacks A's reminder (unless B already had that id):
  reloading either tab loses it. The specification accepts this (sections 4.2 and 5).\<close>

theorem tabs_lost_update:
  assumes a: "js_trim a \<noteq> []" and b: "js_trim b \<noteq> []" and t: "t1 \<noteq> t2"
    and fresh: "dec_str t1 \<notin> set (ids (todos (tab_b w)))"
  shows
   "let w' = tabs_run [(Tab_A, Change_input a), (Tab_A, Click_add t1 t1),
                       (Tab_B, Change_input b), (Tab_B, Click_add t2 t2)] w
    in dec_str t1 \<in> set (ids (todos (tab_a w'))) \<and>
       loadTodos (shared w') = Loaded (todos (tab_b w')) \<and>
       dec_str t1 \<notin> set (ids (todos (tab_b w')))"
  using a b t fresh
  by (simp add: tab_step_def put_tab_def tab_of_def attach_def detach_def dispatch_def handler_def
      store_defs save_effect_def new_todo_def ids_def dec_str_inj loadTodos_persisted [OF persisted_saveTodos])

theorem tabs_lost_update_witness:
  "let w' = tabs_run [(Tab_A, Change_input (js ''milk'')), (Tab_A, Click_add 1 1),
                      (Tab_B, Change_input (js ''eggs'')), (Tab_B, Click_add 2 2)]
              \<lparr>tab_a = \<lparr>todos = [], newTodo = [], filter_sel = All\<rparr>,
               tab_b = \<lparr>todos = [], newTodo = [], filter_sel = All\<rparr>, shared = saveTodos [] Map.empty\<rparr>
   in js ''1'' \<in> set (ids (todos (tab_a w'))) \<and> loadTodos (shared w') = Loaded (todos (tab_b w')) \<and>
      js ''1'' \<notin> set (ids (todos (tab_b w')))"
proof -
  have "js_trim (js ''milk'') \<noteq> []" "js_trim (js ''eggs'') \<noteq> []" "(1::nat) \<noteq> 2" and d: "dec_str (Suc 0) = js ''1''"
    by (simp_all add: js_trim_def is_js_space_def dec_str.simps digit_char_def)
  from tabs_lost_update [OF this(1-3), of
      "\<lparr>tab_a = \<lparr>todos = [], newTodo = [], filter_sel = All\<rparr>,
        tab_b = \<lparr>todos = [], newTodo = [], filter_sel = All\<rparr>, shared = saveTodos [] Map.empty\<rparr>"]
  show ?thesis by (simp add: Let_def ids_def d del: tabs_run.simps)
qed

end
