(* ===== verification/Todo_Refine.thy ===== *)
theory Todo_Refine
  imports Todo_App
begin

text \<open>
  The store of the specification (sections 4.1 and 4.2) as an abstract machine, and the
  proof that the component implements it.
  \<^item> In the specification a task is found by its identifier, so the abstract store is
    a map from identifiers to records (\<open>tasks\<close>). Beside it are the draft, the
    filter, and the map the persisted storage holds (\<open>saved\<close>, \<open>None\<close> when nothing
    readable is stored).
  \<^item> \<open>spec_op\<close> adds, flips, removes and clears on the map. \<open>spec_save\<close> writes the
    whole map whenever the tasks change (a full-snapshot write). \<open>spec_init\<close> is
    Initialize: the stored map, or the empty map when nothing is stored.
  \<^item> The component keeps a list (lines 17--19), acts on it with \<open>map\<close> and
    \<open>filter\<close> (lines 32--58), and saves through the \<open>[todos]\<close> effect (lines 28--30).
    \<open>abs_store\<close> reads the list as a map, first record first (\<open>map_of\<close>, as in the
    association lists of the library), and the storage through \<open>loadTodos\<close>.
  The simulation is proved one step at a time under an invariant of the component: the
  ids are distinct and the storage holds the list. The clock keeps the first true when
  it moves between additions; the save effect keeps the second.
\<close>

record spec_store =
  tasks :: "jstr \<rightharpoonup> todo"
  draft :: jstr
  view :: filter_mode
  saved :: "(jstr \<rightharpoonup> todo) option"

definition todo_map :: "todo list \<Rightarrow> jstr \<rightharpoonup> todo" where
  "todo_map ts = map_of (map (\<lambda>t. (todo_id t, t)) ts)"

definition abs_saved :: "local_storage \<Rightarrow> (jstr \<rightharpoonup> todo) option" where
  "abs_saved st = (case loadTodos st of Loaded ts \<Rightarrow> Some (todo_map ts) | _ \<Rightarrow> None)"

definition abs_store :: "todo_app \<Rightarrow> spec_store" where
  "abs_store s =
     \<lparr>tasks = todo_map (todos s), draft = newTodo s, view = filter_sel s, saved = abs_saved (storage s)\<rparr>"

definition spec_add :: "timestamp \<Rightarrow> timestamp \<Rightarrow> spec_store \<Rightarrow> spec_store" where
  "spec_add t1 t2 \<sigma> =
     (if js_trim (draft \<sigma>) = [] then \<sigma>
      else \<sigma>\<lparr>tasks := (tasks \<sigma>)(dec_str t1 \<mapsto>
                \<lparr>todo_id = dec_str t1, todo_text = js_trim (draft \<sigma>), completed = False, createdAt = t2\<rparr>),
             draft := []\<rparr>)"

definition spec_clear :: "(jstr \<rightharpoonup> todo) \<Rightarrow> jstr \<rightharpoonup> todo" where
  "spec_clear m k = (case m k of Some t \<Rightarrow> if completed t then None else Some t | None \<Rightarrow> None)"

definition spec_op :: "event \<Rightarrow> spec_store \<Rightarrow> spec_store" where
  "spec_op ev \<sigma> =
     (case ev of
        Change_input v \<Rightarrow> \<sigma>\<lparr>draft := v\<rparr>
      | Key_down k t1 t2 \<Rightarrow> if k = js ''Enter'' then spec_add t1 t2 \<sigma> else \<sigma>
      | Click_add t1 t2 \<Rightarrow> spec_add t1 t2 \<sigma>
      | Click_filter f \<Rightarrow> \<sigma>\<lparr>view := f\<rparr>
      | Click_toggle i \<Rightarrow>
          \<sigma>\<lparr>tasks := (tasks \<sigma>)(i := map_option (\<lambda>t. t\<lparr>completed := \<not> completed t\<rparr>) (tasks \<sigma> i))\<rparr>
      | Click_delete i \<Rightarrow> \<sigma>\<lparr>tasks := (tasks \<sigma>)(i := None)\<rparr>
      | Click_clear \<Rightarrow> \<sigma>\<lparr>tasks := spec_clear (tasks \<sigma>)\<rparr>)"

definition spec_save :: "spec_store \<Rightarrow> spec_store \<Rightarrow> spec_store" where
  "spec_save \<sigma> \<sigma>' = (if tasks \<sigma>' = tasks \<sigma> then \<sigma>' else \<sigma>'\<lparr>saved := Some (tasks \<sigma>')\<rparr>)"

definition spec_step :: "event \<Rightarrow> spec_store \<Rightarrow> spec_store" where
  "spec_step ev \<sigma> = spec_save \<sigma> (spec_op ev \<sigma>)"

definition spec_init :: "(jstr \<rightharpoonup> todo) option \<Rightarrow> spec_store" where
  "spec_init sv =
     (let m = (case sv of Some m \<Rightarrow> m | None \<Rightarrow> Map.empty)
      in \<lparr>tasks = m, draft = [], view = All, saved = Some m\<rparr>)"

fun spec_run :: "event list \<Rightarrow> spec_store \<Rightarrow> spec_store" where
  "spec_run [] \<sigma> = \<sigma>"
| "spec_run (e # es) \<sigma> = spec_run es (spec_step e \<sigma>)"

lemma todo_map_Nil [simp]: "todo_map [] = Map.empty"
  and todo_map_Cons [simp]: "todo_map (t # ts) = (todo_map ts)(todo_id t \<mapsto> t)"
  by (simp_all add: todo_map_def)

lemma todo_map_None: "todo_map ts k = None \<longleftrightarrow> k \<notin> set (ids ts)"
  by (induction ts) (auto simp: ids_def)

lemma todo_map_toggle:
  "todo_map (map (\<lambda>t. if todo_id t = i then t\<lparr>completed := \<not> completed t\<rparr> else t) ts)
   = (todo_map ts)(i := map_option (\<lambda>t. t\<lparr>completed := \<not> completed t\<rparr>) (todo_map ts i))"
  by (induction ts) (auto simp: fun_eq_iff)

lemma todo_map_delete: "todo_map (filter (\<lambda>t. todo_id t \<noteq> i) ts) = (todo_map ts)(i := None)"
  by (induction ts) (auto simp: fun_eq_iff)

lemma todo_map_clear:
  "distinct (ids ts) \<Longrightarrow> todo_map (filter (\<lambda>t. \<not> completed t) ts) = spec_clear (todo_map ts)"
proof (induction ts)
  case Nil
  then show ?case by (simp add: spec_clear_def fun_eq_iff)
next
  case (Cons t ts)
  then have "todo_map ts (todo_id t) = None" by (simp add: ids_def todo_map_None)
  with Cons show ?case by (auto simp: spec_clear_def fun_eq_iff ids_def)
qed

lemma dispatch_refines_ops:
  assumes "ids_distinct (todos s)"
  shows "tasks (abs_store (dispatch ev s)) = tasks (spec_op ev (abs_store s)) \<and>
         draft (abs_store (dispatch ev s)) = draft (spec_op ev (abs_store s)) \<and>
         view (abs_store (dispatch ev s)) = view (spec_op ev (abs_store s))"
proof (cases ev)
  case (Click_clear)
  with assms show ?thesis
    by (simp add: abs_store_def spec_op_def dispatch_def handler_def clearCompleted_def save_effect_def
        todo_map_clear ids_distinct_def)
qed (auto simp: abs_store_def spec_op_def spec_add_def dispatch_def handler_def store_defs
       new_todo_def save_effect_def todo_map_toggle todo_map_delete)

lemma abs_saved_persisted: "persisted ts st \<Longrightarrow> abs_saved st = Some (todo_map ts)"
  by (simp add: abs_saved_def loadTodos_persisted)

lemma spec_op_saved: "saved (spec_op ev \<sigma>) = saved \<sigma>"
  by (cases ev) (simp_all add: spec_op_def spec_add_def)

lemma dispatch_refines:
  assumes "ids_distinct (todos s)" and "persisted (todos s) (storage s)"
  shows "abs_store (dispatch ev s) = spec_step ev (abs_store s)"
proof (rule spec_store.equality)
  have ops: "tasks (abs_store (dispatch ev s)) = tasks (spec_op ev (abs_store s))"
    "draft (abs_store (dispatch ev s)) = draft (spec_op ev (abs_store s))"
    "view (abs_store (dispatch ev s)) = view (spec_op ev (abs_store s))"
    using dispatch_refines_ops [OF assms(1)] by simp_all
  have before: "saved (abs_store s) = Some (tasks (abs_store s))"
    using assms(2) by (simp add: abs_store_def abs_saved_persisted)
  have after: "saved (abs_store (dispatch ev s)) = Some (tasks (abs_store (dispatch ev s)))"
    using dispatch_persisted [OF assms(2)] by (simp add: abs_store_def abs_saved_persisted)
  show "tasks (abs_store (dispatch ev s)) = tasks (spec_step ev (abs_store s))"
    "draft (abs_store (dispatch ev s)) = draft (spec_step ev (abs_store s))"
    "view (abs_store (dispatch ev s)) = view (spec_step ev (abs_store s))"
    using ops by (simp_all add: spec_step_def spec_save_def)
  show "saved (abs_store (dispatch ev s)) = saved (spec_step ev (abs_store s))"
    using ops before after by (simp add: spec_step_def spec_save_def spec_op_saved)
  show "spec_store.more (abs_store (dispatch ev s)) = spec_store.more (spec_step ev (abs_store s))"
    by (simp add: abs_store_def spec_step_def spec_save_def spec_op_def spec_add_def split: event.splits)
qed

lemma mount_refines: "mount False st = Inr s \<Longrightarrow> abs_store s = spec_init (abs_saved st)"
  using mount_ok_cases [of st s]
  by (auto simp: abs_store_def spec_init_def app_init_def Let_def abs_saved_def
      loadTodos_persisted [OF persisted_saveTodos])

lemma run_refines:
  "ids_distinct (todos s) \<Longrightarrow> persisted (todos s) (storage s) \<Longrightarrow> ids_below b (todos s) \<Longrightarrow>
   clock_from b es \<Longrightarrow> abs_store (run es s) = spec_run es (abs_store s)"
proof (induction es arbitrary: s b)
  case (Cons e es)
  obtain b' where "ids_distinct (todos (dispatch e s))" "ids_below b' (todos (dispatch e s))" "clock_from b' es"
    by (rule dispatch_clock_step [OF Cons.prems(1,3,4)])
  moreover have "persisted (todos (dispatch e s)) (storage (dispatch e s))"
    using Cons.prems(2) by (rule dispatch_persisted)
  moreover have "abs_store (dispatch e s) = spec_step e (abs_store s)"
    using Cons.prems(1,2) by (rule dispatch_refines)
  ultimately show ?case by (simp add: Cons.IH)
qed simp

text \<open>C12. Refinement of the specification's store with its persistence (sections 4.1
  and 4.2): a session that mounts on any readable storage and then runs events, while
  the ids stay distinct and the clock moves between additions, is, read as a map from
  ids to records together with the map the storage holds, the run of the abstract store
  from \<open>Initialize\<close> on the same events. The abstract operations act by identifier on
  a map and save whenever the tasks change; the component uses \<open>map\<close> and \<open>filter\<close>
  over a list and the \<open>[todos]\<close> effect.\<close>

theorem run_refines_spec:
  assumes "mount False st = Inr s" and "ids_distinct (todos s)" and "ids_below b (todos s)"
    and "clock_from b es"
  shows "abs_store (run es s) = spec_run es (spec_init (abs_saved st))"
proof -
  have "persisted (todos s) (storage s)" using assms(1) by (rule mount_persisted)
  with assms(2-4) have "abs_store (run es s) = spec_run es (abs_store s)" by (intro run_refines)
  with mount_refines [OF assms(1)] show ?thesis by simp
qed

theorem run_refines_spec_witness:
  "abs_store (run [Change_input (js ''a''), Click_add 1 1, Change_input (js ''b''), Click_add 2 2,
                   Click_toggle (js ''1''), Click_clear] (app_init (saveTodos [] Map.empty)))
   = spec_run [Change_input (js ''a''), Click_add 1 1, Change_input (js ''b''), Click_add 2 2,
               Click_toggle (js ''1''), Click_clear] (spec_init (abs_saved Map.empty))"
proof -
  have m: "mount False Map.empty = Inr (app_init (saveTodos [] Map.empty))"
    by (simp add: mount_def render_update_def effect_load_def loadTodos_def app_init_def save_effect_def)
  show ?thesis
    by (rule run_refines_spec [OF m, of 0])
       (simp_all add: app_init_def ids_distinct_def ids_def ids_below_def event_clock_def)
qed

end
