(* ===== verification/Todo_Runs.thy ===== *)
theory Todo_Runs
  imports Todo_App
begin

text \<open>
  Sessions of a user: runs of events of \<open>Todo_App\<close>. \<open>record_wf\<close> is the shape every
  record the component creates has (\<open>addTodo\<close>, lines 32--44): a non-empty text that
  is its own trim and an id that is the decimal numeral of a clock reading.
  \<open>offered_run\<close> says that each event of a run is one the view offers at that moment
  (\<open>offered\<close>). The lemmas show that every run keeps the shape of the records, and that
  from every state some offered run empties the list.
\<close>

definition record_wf :: "todo \<Rightarrow> bool" where
  "record_wf t \<longleftrightarrow>
     todo_text t \<noteq> [] \<and> js_trim (todo_text t) = todo_text t \<and> todo_id t = dec_str (dec_val (todo_id t))"

definition todos_wf :: "todo list \<Rightarrow> bool" where
  "todos_wf ts \<longleftrightarrow> list_all record_wf ts"

fun offered_run :: "event list \<Rightarrow> todo_app \<Rightarrow> bool" where
  "offered_run [] s = True"
| "offered_run (e # es) s = (offered s e \<and> offered_run es (dispatch e s))"

lemma record_wf_new_todo: "js_trim v \<noteq> [] \<Longrightarrow> record_wf (new_todo t1 t2 v)"
  by (simp add: record_wf_def new_todo_def js_trim_js_trim dec_val_dec_str)

lemma record_wf_flip: "record_wf (t\<lparr>completed := b\<rparr>) = record_wf t"
  by (simp add: record_wf_def)

lemma dispatch_wf: "todos_wf (todos s) \<Longrightarrow> todos_wf (todos (dispatch ev s))"
  by (cases ev)
     (auto simp: todos_wf_def list_all_iff dispatch_def handler_def store_defs save_effect_def
        record_wf_new_todo record_wf_flip)

text \<open>C38. The type of the records is an invariant: when every record has a non-empty
  trimmed text and a canonical decimal id, it stays so after any run of events. Adding
  creates only such records (the trim gate, \<open>Date.now().toString()\<close>), toggling
  changes only \<open>completed\<close>, and deleting and clearing only remove.\<close>

theorem run_wf: "todos_wf (todos s) \<Longrightarrow> todos_wf (todos (run es s))"
  by (induction es arbitrary: s) (simp_all add: dispatch_wf)

theorem run_wf_witness:
  "todos_wf (todos (run [Change_input (js '' milk ''), Click_add 1 1, Change_input (js ''eggs''), Click_add 2 2,
                         Click_toggle (js ''1''), Click_delete (js ''2'')] (app_init Map.empty)))"
  by (rule run_wf) (simp add: app_init_def todos_wf_def)

lemma visible_ids_All: "filter_sel s = All \<Longrightarrow> todos s \<noteq> [] \<Longrightarrow> set (visible_ids s) = set (ids (todos s))"
  by (simp add: visible_ids_def render_def Let_def filteredTodos_def filter_pass_def item_of_def ids_def comp_def)

text \<open>C39. Liveness of the controls: from every state, whatever the filter and the list,
  the user can empty the list using only controls the view offers: select the
  \<open>all\<close> filter, then delete the first item shown, and repeat. Each delete removes at
  least one record, so the run ends.\<close>

theorem can_empty_list: "\<exists>es. offered_run es s \<and> todos (run es s) = []"
proof (induction "length (todos s)" arbitrary: s rule: less_induct)
  case less
  show ?case
  proof (cases "todos s")
    case Nil
    then show ?thesis by (intro exI [of _ "[]"]) simp
  next
    case (Cons t ts)
    let ?s1 = "dispatch (Click_filter All) s"
    let ?s2 = "dispatch (Click_delete (todo_id t)) ?s1"
    have s1: "todos ?s1 = todos s" "filter_sel ?s1 = All"
      by (simp_all add: dispatch_def handler_def setFilter_def)
    have o1: "offered ?s1 (Click_delete (todo_id t))"
      using s1 Cons visible_ids_All [of ?s1] by (simp add: offered_def ids_def)
    have "length (todos ?s2) < length (todos s)"
      using s1 Cons by (simp add: dispatch_def handler_def deleteTodo_def save_effect_def le_imp_less_Suc)
    then obtain es where "offered_run es ?s2" "todos (run es ?s2) = []" using less by blast
    with o1 show ?thesis
      by (intro exI [of _ "Click_filter All # Click_delete (todo_id t) # es"]) (simp add: offered_def)
  qed
qed

end
