(* ===== verification/Todo_React.thy ===== *)
theory Todo_React
  imports Todo_App
begin

text \<open>
  How React runs this component, in more detail than \<open>Todo_App\<close>: the loop of
  render, commit and effects, and the deps arrays that decide which effect runs
  (\<open>[]\<close> at line 26, \<open>[todos]\<close> at line 30 of \<open>src/src/index.tsx\<close>).
  \<^item> A \<open>fiber\<close> is the component instance. It holds the state of the last render with
    the storage, and the identity of the \<open>todos\<close> array as a version number (every
    \<open>setTodos\<close> with a new array makes a new identity). It also holds the \<open>todos\<close>
    identity the save effect last saw, whether the mount effects have run, and the
    pending \<open>setTodos\<close> update (a list, or foreign data from storage).
  \<^item> \<open>effects_pass\<close> runs the effects of a commit in declaration order. The load effect
    runs only on mount and queues its update; the save effect runs when the identity
    of \<open>todos\<close> differs from the one it saw. Under StrictMode the first commit runs
    the effects twice (\<open>commit\<close>).
  \<^item> \<open>settle\<close> commits, applies a queued update (a re-render) and commits again until
    nothing is queued. Re-rendering with foreign data throws (\<open>render_error\<close>),
    which ends the loop with that error.
  An effect that updates the state it depends on would make this loop run forever,
  so \<open>settle\<close> is a \<^theory_text>\<open>partial_function (option)\<close> and its return is a theorem.
  The lemmas show that the loop returns, and that it computes exactly \<open>mount\<close> and
  \<open>dispatch\<close>, the one-step abstraction the rest of the development uses.
\<close>

record fiber =
  fapp :: todo_app
  todos_ver :: nat
  seen_ver :: "nat option"
  mounted :: bool
  queue :: "update option"

definition first_render :: "local_storage \<Rightarrow> fiber" where
  "first_render st = \<lparr>fapp = app_init st, todos_ver = 0, seen_ver = None, mounted = False, queue = None\<rparr>"

definition effects_pass :: "fiber \<Rightarrow> app_error + fiber" where
  "effects_pass f =
     (case (if mounted f then Inr f
            else (case effect_load (storage (fapp f)) of
                    Inl e \<Rightarrow> Inl e
                  | Inr None \<Rightarrow> Inr f
                  | Inr (Some u) \<Rightarrow> Inr (f\<lparr>queue := Some u\<rparr>))) of
        Inl e \<Rightarrow> Inl e
      | Inr g \<Rightarrow> Inr (if seen_ver f = Some (todos_ver f) then g else g\<lparr>fapp := save_effect (fapp g)\<rparr>))"

definition commit :: "bool \<Rightarrow> fiber \<Rightarrow> app_error + fiber" where
  "commit strict f =
     (case (if strict \<and> \<not> mounted f
            then (case effects_pass f of Inl e \<Rightarrow> Inl e | Inr g \<Rightarrow> effects_pass g)
            else effects_pass f) of
        Inl e \<Rightarrow> Inl e
      | Inr g \<Rightarrow> Inr (g\<lparr>mounted := True, seen_ver := Some (todos_ver g)\<rparr>))"

definition apply_queue :: "fiber \<Rightarrow> (app_error + fiber) option" where
  "apply_queue f =
     (case queue f of
        None \<Rightarrow> None
      | Some (Set_todos ts) \<Rightarrow>
          Some (Inr (f\<lparr>fapp := (fapp f)\<lparr>todos := ts\<rparr>, todos_ver := Suc (todos_ver f), queue := None\<rparr>))
      | Some (Set_foreign v) \<Rightarrow> Some (Inl (render_error v)))"

partial_function (option) settle :: "bool \<Rightarrow> fiber \<Rightarrow> (app_error + fiber) option" where
  "settle strict f =
     (case commit strict f of
        Inl e \<Rightarrow> Some (Inl e)
      | Inr g \<Rightarrow>
          (case apply_queue g of
             None \<Rightarrow> Some (Inr g)
           | Some (Inl e) \<Rightarrow> Some (Inl e)
           | Some (Inr h) \<Rightarrow> settle strict h))"

definition react_mount :: "bool \<Rightarrow> local_storage \<Rightarrow> (app_error + fiber) option" where
  "react_mount strict st = settle strict (first_render st)"

definition react_event :: "event \<Rightarrow> fiber \<Rightarrow> (app_error + fiber) option" where
  "react_event ev f =
     (case handler ev (fapp f) of
        (s', changed) \<Rightarrow>
          settle False (f\<lparr>fapp := s', todos_ver := (if changed then Suc (todos_ver f) else todos_ver f)\<rparr>))"

fun react_run :: "event list \<Rightarrow> fiber \<Rightarrow> (app_error + fiber) option" where
  "react_run [] f = Some (Inr f)"
| "react_run (e # es) f =
     (case react_event e f of
        None \<Rightarrow> None
      | Some (Inl x) \<Rightarrow> Some (Inl x)
      | Some (Inr g) \<Rightarrow> react_run es g)"

definition react_session :: "bool \<Rightarrow> local_storage \<Rightarrow> event list \<Rightarrow> (app_error + fiber) option" where
  "react_session strict st es =
     (case react_mount strict st of
        None \<Rightarrow> None
      | Some (Inl x) \<Rightarrow> Some (Inl x)
      | Some (Inr f) \<Rightarrow> react_run es f)"

definition settled :: "fiber \<Rightarrow> bool" where
  "settled f \<longleftrightarrow> mounted f \<and> seen_ver f = Some (todos_ver f) \<and> queue f = None"

lemma settle_mounted_quiet:
  "mounted f \<Longrightarrow> queue f = None \<Longrightarrow>
   settle strict f = Some (Inr (f\<lparr>fapp := (if seen_ver f = Some (todos_ver f) then fapp f else save_effect (fapp f)),
                                 seen_ver := Some (todos_ver f)\<rparr>))"
  by (subst settle.simps) (simp add: commit_def effects_pass_def apply_queue_def)

lemma react_event_dispatch:
  assumes "settled f"
  shows "\<exists>g. react_event ev f = Some (Inr g) \<and> fapp g = dispatch ev (fapp f) \<and> settled g"
  using assms
  by (cases "handler ev (fapp f)")
     (simp add: react_event_def settle_mounted_quiet settled_def dispatch_def)

lemma react_mount_unfold:
  "react_mount strict st =
     (case commit strict (first_render st) of
        Inl e \<Rightarrow> Some (Inl e)
      | Inr g \<Rightarrow>
          (case apply_queue g of
             None \<Rightarrow> Some (Inr g)
           | Some (Inl e) \<Rightarrow> Some (Inl e)
           | Some (Inr h) \<Rightarrow> settle strict h))"
  unfolding react_mount_def by (subst settle.simps) (rule refl)

lemma react_mount_mount:
  "map_option (map_sum id fapp) (react_mount strict st) = Some (mount strict st) \<and>
   (\<forall>f. react_mount strict st = Some (Inr f) \<longrightarrow> settled f)"
proof (cases strict)
  case False
  then show ?thesis
    by (cases "loadTodos st")
       (simp_all add: react_mount_unfold first_render_def commit_def effects_pass_def apply_queue_def effect_load_def
        mount_def render_update_def render_error_def settle_mounted_quiet settled_def app_init_def)
next
  case True
  have l: "loadTodos (saveTodos [] st) = Loaded []"
    by (rule loadTodos_persisted [OF persisted_saveTodos])
  from True show ?thesis
    by (cases "loadTodos st")
       (simp_all add: react_mount_unfold first_render_def commit_def effects_pass_def apply_queue_def effect_load_def
        mount_def render_update_def render_error_def settle_mounted_quiet settled_def app_init_def numeral_2_eq_2 l save_effect_def)
qed

lemma react_run_settled:
  "settled f \<Longrightarrow> \<exists>g. react_run es f = Some (Inr g) \<and> fapp g = run es (fapp f) \<and> settled g"
proof (induction es arbitrary: f)
  case (Cons e es)
  obtain g where "react_event e f = Some (Inr g)" "fapp g = dispatch e (fapp f)" "settled g"
    using react_event_dispatch [OF Cons.prems] by blast
  with Cons.IH [of g] show ?case by simp
qed simp

lemma react_mount_cases:
  obtains e where "react_mount strict st = Some (Inl e)" "mount strict st = Inl e"
  | f where "react_mount strict st = Some (Inr f)" "mount strict st = Inr (fapp f)" "settled f"
proof -
  obtain r where r: "react_mount strict st = Some r" "map_sum id fapp r = mount strict st"
    and s: "\<forall>f. r = Inr f \<longrightarrow> settled f"
    using react_mount_mount [of strict st] by (cases "react_mount strict st") auto
  show ?thesis
  proof (cases r)
    case (Inl e)
    with r show ?thesis by (intro that(1)) auto
  next
    case (Inr f)
    with r s show ?thesis by (intro that(2)) auto
  qed
qed

text \<open>C10. Termination of the render loop: for every storage, mode and sequence of
  user events, the commit loop of every step returns; the component never enters an
  endless update loop, because the save effect does not update the state and the load
  effect runs only on mount.\<close>

theorem react_session_returns: "\<exists>r. react_session strict st es = Some r"
proof (cases rule: react_mount_cases [of strict st])
  case (1 e)
  then show ?thesis by (simp add: react_session_def)
next
  case (2 f)
  then show ?thesis using react_run_settled [of f es] by (auto simp: react_session_def)
qed

text \<open>C8. The one-step abstraction is exact: React's commit loop, with the deps of both
  effects and the double mount of StrictMode, computes exactly \<open>mount\<close> followed by
  one \<open>dispatch\<close> per event: the same errors, the same state and the same storage.\<close>

theorem react_session_run:
  "map_option (map_sum id fapp) (react_session strict st es) = Some (map_sum id (run es) (mount strict st))"
proof (cases rule: react_mount_cases [of strict st])
  case (1 e)
  then show ?thesis by (simp add: react_session_def)
next
  case (2 f)
  then show ?thesis using react_run_settled [of f es] by (auto simp: react_session_def)
qed

end
