(* ===== verification/Spec2Isabelle.thy ===== *)
theory Spec2Isabelle
  imports Todo_Tabs Todo_Refine Todo_Runs Todo_React
begin

text \<open>
  \<^bold>\<open>A verification development of the Reminders widget (\<open>src/src/index.tsx\<close>).\<close>

  The program is one React function component, \<open>TodoApp\<close>.
  \<^item> Three state hooks: the list \<open>todos\<close>, the draft \<open>newTodo\<close> and the \<open>filter\<close>
    (lines 16--19).
  \<^item> Two effects. The load effect (lines 21--26, run once on mount) reads
    \<open>localStorage[''zos-todos'']\<close> and passes \<open>JSON.parse\<close> of it to \<open>setTodos\<close>.
    The save effect (lines 28--30, run after every render in which \<open>todos\<close>
    changed, and on mount) writes \<open>JSON.stringify(todos)\<close> back.
  \<^item> Four handlers (\<open>addTodo\<close>, \<open>toggleTodo\<close>, \<open>deleteTodo\<close>, \<open>clearCompleted\<close>,
    lines 32--58).
  \<^item> Derived values (\<open>filteredTodos\<close>, \<open>activeCount\<close>, \<open>completedCount\<close>,
    lines 60--67).
  \<^item> The markup (lines 69--164). It binds the handlers to the filter buttons, the
    input, its Enter key, the Add button, the per-item check and delete buttons and
    Clear completed.

  \<^bold>\<open>Theories.\<close> Each theory models one part, in the order of the code.
  \<^item> \<open>Todo_Prelude\<close>: the code-unit string type \<open>jstr\<close> (a list of \<open>16 word\<close>, as
    JavaScript strings are), \<open>js\<close> for literals, and the list and option
    combinators the components share.
  \<^item> \<open>Todo_Data\<close>: the \<open>Todo\<close> interface as the record \<open>todo\<close>, the filter union as
    \<open>filter_mode\<close>, and \<open>STORAGE_KEY\<close>. It also holds the two string built-ins the
    handlers call. \<open>js_trim\<close> is \<open>String.prototype.trim\<close>, with the ECMAScript
    white space and line terminator set (\<open>is_js_space\<close>). \<open>dec_str\<close> is
    \<open>Number.prototype.toString\<close> on \<open>Date.now()\<close>.
    Lemmas: trim is idempotent and leaves no white space at either end; \<open>dec_str\<close>
    is injective.
  \<^item> \<open>Todo_Store\<close>: the state hooks as the record \<open>todo_state\<close>, and one definition per
    handler (\<open>addTodo\<close>, \<open>toggleTodo\<close>, \<open>deleteTodo\<close>, \<open>clearCompleted\<close>,
    \<open>setNewTodo\<close>, \<open>setFilter\<close>). Each is the state after React applies the
    handler's set calls. \<open>addTodo\<close> takes the two \<open>Date.now()\<close> readings of lines
    36 and 39 as arguments.
    Lemmas: each handler's behaviour on every branch, including the blank-draft no-op
    and the absent id.
  \<^item> \<open>Todo_View\<close>: \<open>filteredTodos\<close> and the counts, and \<open>render\<close>. \<open>render\<close> reduces the
    markup to what a user reads and can act on: the filter buttons, the draft, whether
    Add is disabled, the empty-state message or the items, and the footer.
    Lemmas: the filters partition the list (as a multiset, and record by record); the
    counts add up; Add is disabled exactly when adding is a no-op; the footer; the
    screen after Clear completed; the empty-state message depends on the filter only.
  \<^item> \<open>Todo_Json\<close>: the two built-ins the effects call, following ECMA-262 and
    ECMA-404.
    \<^item> \<open>json_stringify\<close> is \<open>JSON.stringify\<close>, with QuoteJSONString's escapes,
      including lone surrogates as \<open>\u\<close> escapes.
    \<^item> \<open>json_parse\<close> is \<open>JSON.parse\<close>: a lexer automaton over code units
      (\<open>json_lex\<close>) followed by a pushdown parser over tokens (\<open>pstep\<close>, \<open>prun\<close>).
    Both recurse structurally on their input, so they are total and need no fuel.
    Lemma: parse after stringify is the identity on well-formed values
    (\<open>json_wf\<close>). Its proof goes through the token list \<open>toks\<close>: the lexer produces it
    from the printed text, and the parser rebuilds the value from it.
  \<^item> \<open>Todo_Json_Text\<close>: the printed text as a string.
    Lemmas: it is well-formed UTF-16 (\<open>utf16_wf\<close>) with no raw control character
    (\<open>json_text_ok\<close>); a string of \<open>n\<close> units prints in at most \<open>6 n + 2\<close> units.
  \<^item> \<open>Todo_Storage\<close>: \<open>localStorage\<close> as a partial map from strings to strings, the
    JSON layout of a list, \<open>loadTodos\<close> with its four outcomes and \<open>saveTodos\<close>.
    A parsed object is read by property lookup (\<open>js_prop\<close>): the last of duplicated
    members wins, as in the object \<open>JSON.parse\<close> builds.
    Lemmas:
    \<^item> load after save gives the list back, and save touches only its key;
    \<^item> what save writes is a well-formed JSON text, even for texts with lone
      surrogates.
  \<^item> \<open>Todo_App\<close>: the component and its storage as the record \<open>todo_app\<close>.
    \<^item> \<open>mount\<close> runs the two effects in source order, once, or twice under React
      StrictMode, and then renders the last update the load effect queued
      (\<open>update\<close>: a todo list, or foreign data). Its errors are \<open>Inl\<close> values of
      \<open>app_error\<close>. A \<open>SyntaxError\<close> is thrown by \<open>JSON.parse\<close> inside the load
      effect. Foreign data is put into the state unchecked, and the render that follows
      throws: at \<open>todos.filter\<close> for a value that is not an array, or on the fields of
      foreign items. Under StrictMode the first save effect writes \<open>[]\<close> before that
      render, so the second load queues \<open>[]\<close> and the foreign data never reaches it.
    \<^item> \<open>event\<close> lists the user's events. \<open>handler\<close> maps each to the handler the markup
      binds, and reports whether it called \<open>setTodos\<close>. \<open>dispatch\<close> adds the save
      effect that follows such a render.
    \<^item> \<open>reachable\<close> is the inductive set of states from a mount and any events the
      rendered view offers (\<open>offered\<close>).
    Lemmas:
    \<^item> the storage holds the serialisation of the list in every reachable state,
      proved by rule induction;
    \<^item> every list control the view offers changes the list;
    \<^item> typing and filtering never write.
  \<^item> \<open>Todo_Refine\<close>: the store of the specification (sections 4.1 and 4.2) as an
    abstract machine \<open>spec_step\<close>.
    \<^item> Its tasks are a map from ids to records, and \<open>saved\<close> is the map the storage
      holds.
    \<^item> \<open>spec_op\<close> is the operations, \<open>spec_save\<close> the full-snapshot write when the
      tasks change, and \<open>spec_init\<close> is Initialize.
    \<^item> \<open>abs_store\<close> reads the component's list as that map and its storage through
      \<open>loadTodos\<close>.
    \<^item> Lemma: a session that mounts on readable storage and then runs events refines
      the abstract run from Initialize, while the ids are distinct and the clock moves
      between additions. It is proved one step at a time under the invariant "distinct
      ids and the storage holds the list".
  \<^item> \<open>Todo_Runs\<close>: user sessions as runs of events the view offers (\<open>offered_run\<close>).
    Lemmas:
    \<^item> the shape of the records (non-empty trimmed text, decimal id) is kept by every
      run;
    \<^item> from every state an offered run empties the list.
  \<^item> \<open>Todo_React\<close>: how React runs the component, the detail under \<open>mount\<close> and
    \<open>dispatch\<close>.
    \<^item> A \<open>fiber\<close> holds the last render, the identity of the \<open>todos\<close> array, the deps
      the save effect saw, and the pending \<open>setTodos\<close> update.
    \<^item> \<open>effects_pass\<close> and \<open>commit\<close> run the effects whose deps changed (twice on a
      StrictMode mount).
    \<^item> \<open>settle\<close> re-renders and commits until nothing is queued; the re-render with
      queued foreign data throws. It is a
      \<^theory_text>\<open>partial_function (option)\<close>, because an effect that sets what it depends on
      loops.
    Lemmas:
    \<^item> every session's loops return;
    \<^item> the loop computes exactly \<open>mount\<close> followed by one \<open>dispatch\<close> per event.
    This justifies the one-step model that every other theorem uses.
  \<^item> \<open>Todo_Tabs\<close>: two instances of the component (two tabs) over one shared
    storage.
    \<^item> \<open>tab_step\<close> runs \<open>dispatch\<close> in one tab against the shared storage.
    \<^item> \<open>tabs_reachable\<close> adds the reload of a tab.
    Lemmas:
    \<^item> the stored list is always the list of the tab that wrote last;
    \<^item> the lost update of two interleaved additions.
  \<^item> This theory states the properties that span the parts:
    \<^item> reloading restores the list;
    \<^item> newest first;
    \<^item> what mounting does with no data, corrupt data or foreign data, in both modes;
    \<^item> when ids stay distinct and when they collide;
    \<^item> the scenario of the specification;
    \<^item> the gap between the id and \<open>createdAt\<close> readings (in \<open>Todo_Store\<close>).

  \<^bold>\<open>Scope and bounds.\<close>
  \<^item> Strings are sequences of UTF-16 code units, as in JavaScript. Trimming and the
    JSON escapes are therefore exact, surrogates included.
  \<^item> \<open>createdAt\<close> and the numeric part of an id are natural numbers.
    \<open>Date.now()\<close> is a non-negative integral number of milliseconds below
    \<open>8.64e15\<close>, far below \<open>1e21\<close>, where \<open>toString\<close> would switch to exponent
    notation. The decimal numeral \<open>dec_str\<close> is exact on that range.
  \<^item> JSON numbers other than naturals are kept as their lexeme (\<open>JNumOther\<close>); the
    component only ever writes naturals.
  \<^item> A record is read back only when its members are exactly \<open>id\<close>, \<open>text\<close>,
    \<open>completed\<close>, \<open>createdAt\<close> in the order the code writes them. Other stored data
    is \<open>Foreign_data\<close>, which the code puts into the state unchecked.
  \<^item> No definition uses fuel. Every loop of the code (the \<open>map\<close> and \<open>filter\<close>
    calls, and the character loops of \<open>trim\<close>, \<open>toString\<close>, \<open>stringify\<close> and
    \<open>parse\<close>) is a structural recursion over a finite list or number.

  \<^bold>\<open>Not modelled.\<close>
  \<^item> The \<open>onClose\<close> prop (lines 10--12 and 16): it is accepted but never called, and
    the markup has no close control. There is no behaviour to model, and a definition
    for it would only restate its absence; the finding records the divergence from the
    specification.
  \<^item> The class names, icons and hover styles of the markup.
  \<^item> The desktop shell that mounts the component.
  \<^item> React's update queue beyond what the code uses. Each handler makes its set calls
    on the state of the last render, so a handler is one step. The commit loop and
    the effect deps are modelled (\<open>Todo_React\<close>).
  \<^item> The \<open>storage\<close> event between tabs: the code registers no listener, so there is
    nothing to model. \<open>Todo_Tabs\<close> models what that means.
  \<^item> Failing writes (quota exceeded): the spec leaves them out of scope.
  \<^item> Stored arrays whose items are not todo records (\<open>Untyped_records\<close>). The code
    renders them with undefined fields, but the record type cannot hold them.
  \<^item> Stored objects with members other than the four fields. The code keeps such
    members (the spread in \<open>toggleTodo\<close> copies them), but the record type cannot
    hold them, so they load as foreign data.
  \<^item> Printing non-integral numbers back: the component only writes integers.

  \<^bold>\<open>Open ends.\<close>
  \<^item> Properties of the two-tab model restricted to offered events.
  \<^item> Records with extra members or foreign fields: this would need todo fields as JSON
    values throughout.
\<close>

section \<open>Properties across the components\<close>

subsection \<open>Persistence\<close>

text \<open>C1. Whatever a user has done since the component was mounted, reloading the page
  (mounting again from the browser storage) brings back exactly the current list, with
  an empty draft and the \<open>all\<close> filter.\<close>

theorem reload_restores:
  "reachable s \<Longrightarrow>
   mount False (storage s) = Inr \<lparr>todos = todos s, newTodo = [], filter_sel = All, storage = storage s\<rparr>"
  by (simp add: reachable_persisted mount_persisted_state)

theorem reload_restores_witness:
  "reachable \<lparr>todos = [\<lparr>todo_id = js ''1'', todo_text = js ''a'', completed = True, createdAt = 1\<rparr>],
              newTodo = [], filter_sel = All,
              storage = saveTodos [\<lparr>todo_id = js ''1'', todo_text = js ''a'', completed = True, createdAt = 1\<rparr>] Map.empty\<rparr>
   \<and> mount False (saveTodos [\<lparr>todo_id = js ''1'', todo_text = js ''a'', completed = True, createdAt = 1\<rparr>] Map.empty)
     = Inr \<lparr>todos = [\<lparr>todo_id = js ''1'', todo_text = js ''a'', completed = True, createdAt = 1\<rparr>],
            newTodo = [], filter_sel = All,
            storage = saveTodos [\<lparr>todo_id = js ''1'', todo_text = js ''a'', completed = True, createdAt = 1\<rparr>] Map.empty\<rparr>"
proof -
  let ?ts = "[\<lparr>todo_id = js ''1'', todo_text = js ''a'', completed = True, createdAt = 1\<rparr>]"
  have r: "reachable \<lparr>todos = ?ts, newTodo = [], filter_sel = All, storage = saveTodos ?ts Map.empty\<rparr>"
    by (rule reachable.mounted [OF mount_persisted_state [OF persisted_saveTodos]])
  show ?thesis using reload_restores [OF r] r by simp
qed

text \<open>C3. In every state a user can reach, the storage holds the serialised list and
  reading it back gives exactly the list on screen: every change of the list is saved
  before the next event.\<close>

theorem reachable_storage_loads: "reachable s \<Longrightarrow> loadTodos (storage s) = Loaded (todos s)"
  by (simp add: reachable_persisted loadTodos_persisted)

theorem reachable_storage_loads_witness:
  "loadTodos (storage (dispatch (Click_add 5 5) (dispatch (Change_input (js ''x'')) (app_init (saveTodos [] Map.empty)))))
   = Loaded [\<lparr>todo_id = js ''5'', todo_text = js ''x'', completed = False, createdAt = 5\<rparr>]"
proof -
  have m: "mount False (saveTodos [] Map.empty) = Inr (app_init (saveTodos [] Map.empty))"
    using mount_persisted_state [OF persisted_saveTodos, of "[]" Map.empty] by (simp add: app_init_def)
  have r0: "reachable (app_init (saveTodos [] Map.empty))" by (rule reachable.mounted [OF m])
  have r1: "reachable (dispatch (Change_input (js ''x'')) (app_init (saveTodos [] Map.empty)))"
    by (rule reachable.step [OF r0]) (simp add: offered_def)
  have r2: "reachable (dispatch (Click_add 5 5) (dispatch (Change_input (js ''x'')) (app_init (saveTodos [] Map.empty))))"
    by (rule reachable.step [OF r1])
       (simp add: offered_def render_def Let_def dispatch_def handler_def setNewTodo_def app_init_def js_trim_def is_js_space_def)
  show ?thesis using reachable_storage_loads [OF r2]
    by (simp add: dispatch_def handler_def store_defs new_todo_def app_init_def js_trim_def is_js_space_def
        save_effect_def dec_str.simps digit_char_def)
qed

subsection \<open>Adding\<close>

text \<open>C6. Newest first: after adding \<open>a\<close> and then \<open>b\<close>, the list starts with
  \<open>b\<close>, then \<open>a\<close>, then the records that were there before.\<close>

theorem newest_first:
  assumes "js_trim a \<noteq> []" and "js_trim b \<noteq> []"
  shows "map todo_text (todos (run [Change_input a, Click_add t1 u1, Change_input b, Click_add t2 u2] s))
         = js_trim b # js_trim a # map todo_text (todos s)"
  using assms by (simp add: dispatch_def handler_def store_defs new_todo_def save_effect_def)

theorem newest_first_witness:
  "map todo_text (todos (run [Change_input (js ''a''), Click_add 1 1, Change_input (js ''b''), Click_add 2 2]
     (app_init Map.empty))) = [js ''b'', js ''a'']"
  using newest_first [of "js ''a''" "js ''b''" 1 1 2 2 "app_init Map.empty"]
  by (simp add: js_trim_def is_js_space_def app_init_def)

subsection \<open>Mounting from storage\<close>

text \<open>C21. Corrupt storage is not recovered from: when the saved value is not valid JSON,
  \<open>JSON.parse\<close> throws inside the load effect, which has no \<open>try\<close>, so mounting
  ends in the error rather than in an empty list.\<close>

theorem mount_syntax_error: "loadTodos st = Parse_error \<Longrightarrow> mount strict st = Inl Json_syntax_error"
  by (cases strict) (simp_all add: mount_def render_update_def numeral_2_eq_2 effect_load_def app_init_def)

theorem mount_syntax_error_witness:
  "loadTodos [STORAGE_KEY \<mapsto> js ''[{''] = Parse_error \<and> mount False [STORAGE_KEY \<mapsto> js ''[{''] = Inl Json_syntax_error"
proof -
  have p: "loadTodos [STORAGE_KEY \<mapsto> js ''[{''] = Parse_error"
    by (simp add: loadTodos_def json_parse_def top_step_def is_ws_def is_digit_def is_letter_def
        pstep_def start_value_def)
  show ?thesis using mount_syntax_error [OF p, of False] p by simp
qed

text \<open>C22. Under React's StrictMode the mount effects run twice before the loaded list is
  rendered; the first save effect overwrites the stored list with \<open>[]\<close>, the second
  load reads that back, and the component starts empty with \<open>[]\<close> saved: every
  saved reminder is lost.\<close>

theorem strict_mount_loses: "mount True (saveTodos ts st) = Inr (app_init (saveTodos [] st))"
  by (simp add: mount_def render_update_def numeral_2_eq_2 effect_load_persisted [OF persisted_saveTodos] app_init_def
      save_effect_def saveTodos_saveTodos)

theorem strict_mount_loses_witness:
  "mount True (saveTodos [\<lparr>todo_id = js ''1'', todo_text = js ''a'', completed = False, createdAt = 1\<rparr>] Map.empty)
   = Inr \<lparr>todos = [], newTodo = [], filter_sel = All, storage = saveTodos [] Map.empty\<rparr>"
  using strict_mount_loses [of "[\<lparr>todo_id = js ''1'', todo_text = js ''a'', completed = False, createdAt = 1\<rparr>]" Map.empty]
  by (simp add: app_init_def)

text \<open>C30. Stored JSON that is valid but not an array is passed to \<open>setTodos\<close>
  unchecked. Without StrictMode the next render throws a \<open>TypeError\<close> at
  \<open>todos.filter\<close> (line 60). Under StrictMode the save effect of the first pass
  overwrites the data with \<open>[]\<close> before that render, the second load queues
  \<open>[]\<close>, and the component starts empty. The specification asks for an empty list
  when the stored data is not a task list.\<close>

theorem mount_untyped_data:
  "loadTodos st = Foreign_data v \<Longrightarrow> \<not> is_array v \<Longrightarrow>
   mount False st = Inl (Render_type_error v) \<and> mount True st = Inr (app_init (saveTodos [] st))"
proof
  assume l: "loadTodos st = Foreign_data v" and n: "\<not> is_array v"
  show "mount False st = Inl (Render_type_error v)"
    using l n by (simp add: mount_def render_update_def render_error_def effect_load_def app_init_def)
  show "mount True st = Inr (app_init (saveTodos [] st))"
    using l by (simp add: mount_def render_update_def numeral_2_eq_2 effect_load_def app_init_def
        loadTodos_persisted [OF persisted_saveTodos] save_effect_def saveTodos_saveTodos)
qed

theorem mount_untyped_data_witness:
  "loadTodos [STORAGE_KEY \<mapsto> js ''{}''] = Foreign_data (JObj []) \<and>
   mount False [STORAGE_KEY \<mapsto> js ''{}''] = Inl (Render_type_error (JObj [])) \<and>
   mount True [STORAGE_KEY \<mapsto> js ''{}''] = Inr (app_init (saveTodos [] [STORAGE_KEY \<mapsto> js ''{}'']))"
proof -
  have l: "loadTodos [STORAGE_KEY \<mapsto> js ''{}''] = Foreign_data (JObj [])"
    by (simp add: loadTodos_def json_parse_def top_step_def is_ws_def is_digit_def is_letter_def
        pstep_def start_value_def complete_def)
  show ?thesis using mount_untyped_data [OF l] l by (simp add: is_array_def)
qed

text \<open>C29. No saved data (no key, or the empty string, which fails \<open>if (saved)\<close>
  at line 23) is not an error: in either mode the component mounts empty and the save
  effect writes \<open>[]\<close>.\<close>

theorem mount_no_saved_data:
  "st STORAGE_KEY = None \<or> st STORAGE_KEY = Some [] \<Longrightarrow> mount strict st = Inr (app_init (saveTodos [] st))"
proof -
  assume "st STORAGE_KEY = None \<or> st STORAGE_KEY = Some []"
  then have l: "loadTodos st = No_saved_data" by (auto simp: loadTodos_def)
  show ?thesis
    using l by (cases strict) (simp_all add: mount_def render_update_def numeral_2_eq_2 effect_load_def app_init_def
        loadTodos_persisted [OF persisted_saveTodos] save_effect_def saveTodos_saveTodos)
qed

theorem mount_no_saved_data_witness:
  "mount True [STORAGE_KEY \<mapsto> []] = Inr (app_init (saveTodos [] [STORAGE_KEY \<mapsto> []]))"
  using mount_no_saved_data [of "[STORAGE_KEY \<mapsto> []]" True] by simp

subsection \<open>Identifiers\<close>

text \<open>C23. The identifiers stay distinct as long as the clock moves between additions:
  from a list whose ids are numerals of earlier clock values, any sequence of events
  whose Add clock readings strictly increase keeps the ids pairwise distinct.\<close>

theorem run_ids_distinct:
  "ids_distinct (todos s) \<Longrightarrow> ids_below b (todos s) \<Longrightarrow> clock_from b es \<Longrightarrow> ids_distinct (todos (run es s))"
proof (induction es arbitrary: s b)
  case (Cons e es)
  obtain b' where "ids_distinct (todos (dispatch e s))" "ids_below b' (todos (dispatch e s))" "clock_from b' es"
    by (rule dispatch_clock_step [OF Cons.prems])
  then show ?case by (simp add: Cons.IH)
qed simp

theorem run_ids_distinct_witness:
  "ids_distinct (todos (run [Change_input (js ''a''), Click_add 1 1, Change_input (js ''b''), Click_add 2 2,
                             Click_toggle (js ''1'')] (app_init Map.empty)))"
  by (rule run_ids_distinct [of _ 0]) (simp_all add: app_init_def ids_distinct_def ids_def ids_below_def event_clock_def)

text \<open>C24. The identifiers collide when two reminders are added within the same
  millisecond (\<open>id: Date.now().toString()\<close>): from any state, the two new records
  lead the list with the same id; deleting that id deletes both; and unless the
  \<open>completed\<close> filter hides them, two rendered items carry the same React key
  (\<open>key={todo.id}\<close>).\<close>

theorem same_millisecond_ids_collide:
  assumes a: "js_trim a \<noteq> []" and b: "js_trim b \<noteq> []"
  shows "todos (run [Change_input a, Click_add t t1, Change_input b, Click_add t t2] s) =
           new_todo t t2 b # new_todo t t1 a # todos s \<and>
         todos (run [Change_input a, Click_add t t1, Change_input b, Click_add t t2, Click_delete (dec_str t)] s) =
           filter (\<lambda>x. todo_id x \<noteq> dec_str t) (todos s) \<and>
         (filter_sel s \<noteq> Completed \<longrightarrow>
            \<not> distinct (visible_ids (run [Change_input a, Click_add t t1, Change_input b, Click_add t t2] s)))"
proof -
  have r: "todos (run [Change_input a, Click_add t t1, Change_input b, Click_add t t2] s) =
           new_todo t t2 b # new_todo t t1 a # todos s"
   and f: "filter_sel (run [Change_input a, Click_add t t1, Change_input b, Click_add t t2] s) = filter_sel s"
    using a b by (simp_all add: dispatch_def handler_def store_defs save_effect_def)
  have d: "run [Change_input a, Click_add t t1, Change_input b, Click_add t t2, Click_delete (dec_str t)] s =
           dispatch (Click_delete (dec_str t)) (run [Change_input a, Click_add t t1, Change_input b, Click_add t t2] s)"
    by simp
  show ?thesis
  proof (intro conjI impI)
    show "todos (run [Change_input a, Click_add t t1, Change_input b, Click_add t t2] s) =
          new_todo t t2 b # new_todo t t1 a # todos s" by (rule r)
    show "todos (run [Change_input a, Click_add t t1, Change_input b, Click_add t t2, Click_delete (dec_str t)] s) =
           filter (\<lambda>x. todo_id x \<noteq> dec_str t) (todos s)"
      unfolding d by (simp add: dispatch_def handler_def deleteTodo_def save_effect_def r new_todo_def del: run.simps)
    assume "filter_sel s \<noteq> Completed"
    then show "\<not> distinct (visible_ids (run [Change_input a, Click_add t t1, Change_input b, Click_add t t2] s))"
      by (cases "filter_sel s")
         (simp_all add: visible_ids_def render_def Let_def r f filteredTodos_def filter_pass_def new_todo_def item_of_def
          del: run.simps)
  qed
qed

theorem same_millisecond_ids_collide_witness:
  "map todo_id (todos (run [Change_input (js ''a''), Click_add 5 5, Change_input (js ''b''), Click_add 5 6]
      (app_init Map.empty))) = [js ''5'', js ''5''] \<and>
   todos (run [Change_input (js ''a''), Click_add 5 5, Change_input (js ''b''), Click_add 5 6,
               Click_delete (js ''5'')] (app_init Map.empty)) = [] \<and>
   \<not> distinct (visible_ids (run [Change_input (js ''a''), Click_add 5 5, Change_input (js ''b''), Click_add 5 6]
      (app_init Map.empty)))"
proof -
  have "js_trim (js ''a'') \<noteq> []" "js_trim (js ''b'') \<noteq> []"
    by (simp_all add: js_trim_def is_js_space_def)
  from same_millisecond_ids_collide [OF this, of 5 5 6 "app_init Map.empty"]
  show ?thesis
    by (simp add: app_init_def new_todo_def dec_str.simps digit_char_def del: run.simps)
qed

subsection \<open>The scenario of the specification\<close>

text \<open>C25. The scenario of the specification, from any state: add \<open>a\<close>, then
  \<open>b\<close> at a later millisecond, toggle the first, select \<open>completed\<close>: the view
  shows the first new record, checked, ahead of the completed records there were; under
  \<open>active\<close> it shows the second, unchecked, ahead of the active records; Clear
  completed leaves the second followed by the active records, in order.\<close>

theorem spec_scenario:
  assumes a: "js_trim a \<noteq> []" and b: "js_trim b \<noteq> []" and t: "t1 \<noteq> t2"
    and fresh: "dec_str t1 \<notin> set (ids (todos s))"
  shows
   "let s1 = run [Change_input a, Click_add t1 t1, Change_input b, Click_add t2 t2,
                  Click_toggle (dec_str t1), Click_filter Completed] s;
        s2 = dispatch (Click_filter Active) s1
    in list_body (render s1) =
         Items (\<lparr>item_id = dec_str t1, item_text = js_trim a, item_checked = True\<rparr> #
                map item_of (filteredTodos Completed (todos s)))
     \<and> list_body (render s2) =
         Items (\<lparr>item_id = dec_str t2, item_text = js_trim b, item_checked = False\<rparr> #
                map item_of (filteredTodos Active (todos s)))
     \<and> todos (dispatch Click_clear s2) = new_todo t2 t2 b # filteredTodos Active (todos s)"
proof -
  have keep: "map (\<lambda>x. if todo_id x = dec_str t1 then x\<lparr>completed := \<not> completed x\<rparr> else x) (todos s) = todos s"
    using fresh by (intro map_idI) (force simp: ids_def)
  define s1 where "s1 = run [Change_input a, Click_add t1 t1, Change_input b, Click_add t2 t2,
                  Click_toggle (dec_str t1), Click_filter Completed] s"
  have r: "todos s1 = new_todo t2 t2 b # (new_todo t1 t1 a)\<lparr>completed := True\<rparr> # todos s"
   and f: "filter_sel s1 = Completed"
    using a b t keep by (simp_all add: s1_def dispatch_def handler_def store_defs save_effect_def new_todo_def dec_str_inj)
  show ?thesis
    unfolding s1_def [symmetric] Let_def
    by (simp add: render_def Let_def r f filteredTodos_filter new_todo_def item_of_def dispatch_def handler_def
        store_defs save_effect_def)
qed

theorem spec_scenario_witness:
  "let s1 = run [Change_input (js ''walk dog''), Click_add 1 1, Change_input (js ''pay rent''), Click_add 2 2,
                 Click_toggle (js ''1''), Click_filter Completed] (app_init (saveTodos [] Map.empty));
       s2 = dispatch (Click_filter Active) s1
   in list_body (render s1) = Items [\<lparr>item_id = js ''1'', item_text = js ''walk dog'', item_checked = True\<rparr>]
    \<and> list_body (render s2) = Items [\<lparr>item_id = js ''2'', item_text = js ''pay rent'', item_checked = False\<rparr>]
    \<and> map todo_text (todos (dispatch Click_clear s2)) = [js ''pay rent'']"
proof -
  have "js_trim (js ''walk dog'') = js ''walk dog''" "js_trim (js ''pay rent'') = js ''pay rent''"
    by (simp_all add: js_trim_def is_js_space_def)
  moreover have "dec_str (Suc 0) = js ''1''" "dec_str 2 = js ''2''"
    by (simp_all add: dec_str.simps digit_char_def)
  ultimately show ?thesis
    using spec_scenario [of "js ''walk dog''" "js ''pay rent''" 1 2 "app_init (saveTodos [] Map.empty)"]
    by (simp add: Let_def app_init_def ids_def filteredTodos_def new_todo_def del: run.simps)
qed

end
